theory Spec2Isabelle
  imports Complex_Main "HOL-Library.Sublist"
begin

section \<open>JavaScript strings\<close>

text \<open>
  A JavaScript string is a sequence of UTF-16 code units. The model covers the strings
  whose code units are below 256 (ASCII and Latin-1), one \<^typ>\<open>char\<close> per code unit,
  so \<open>length\<close> is the source's \<open>.length\<close>. Within that range the white space of
  \<open>String.prototype.trim\<close> and of the regular expression class \<open>\s\<close> is TAB, LF, VT,
  FF, CR, SPACE and NBSP, and \<open>toLowerCase\<close> moves A-Z and the Latin-1 capitals
  (U+00C0 to U+00DE without the multiplication sign U+00D7) by 32.
\<close>

definition isWhiteSpace :: "char \<Rightarrow> bool" where
  "isWhiteSpace c =
     (let n = (of_char c :: nat)
      in n = 9 \<or> n = 10 \<or> n = 11 \<or> n = 12 \<or> n = 13 \<or> n = 32 \<or> n = 160)"

definition isLineTerminator :: "char \<Rightarrow> bool" where
  "isLineTerminator c = (let n = (of_char c :: nat) in n = 10 \<or> n = 13)"

definition trim :: "string \<Rightarrow> string" where
  "trim s = rev (dropWhile isWhiteSpace (rev (dropWhile isWhiteSpace s)))"

definition toLowerChar :: "char \<Rightarrow> char" where
  "toLowerChar c =
     (let n = (of_char c :: nat)
      in if (65 \<le> n \<and> n \<le> 90) \<or> (192 \<le> n \<and> n \<le> 222 \<and> n \<noteq> 215)
         then char_of (n + 32) else c)"

definition toLowerCase :: "string \<Rightarrow> string" where
  "toLowerCase s = map toLowerChar s"

text \<open>\<open>s.startsWith(p)\<close>.\<close>

fun startsWith :: "string \<Rightarrow> string \<Rightarrow> bool" where
  "startsWith s [] = True"
| "startsWith [] (p # ps) = False"
| "startsWith (c # cs) (p # ps) = (c = p \<and> startsWith cs ps)"

text \<open>\<open>s.includes(w)\<close>: does \<open>w\<close> occur in \<open>s\<close> at some position.\<close>

fun str_includes :: "string \<Rightarrow> string \<Rightarrow> bool" where
  "str_includes [] w = (w = [])"
| "str_includes (c # cs) w = (startsWith (c # cs) w \<or> str_includes cs w)"

text \<open>\<open>s.split(sep)\<close> for a one-character separator, and \<open>parts.join(sep)\<close>.\<close>

fun splitOn :: "char \<Rightarrow> string \<Rightarrow> string list" where
  "splitOn sep [] = [[]]"
| "splitOn sep (c # cs) =
     (if c = sep then [] # splitOn sep cs
      else (case splitOn sep cs of [] \<Rightarrow> [[c]] | t # ts \<Rightarrow> (c # t) # ts))"

fun joinWith :: "char \<Rightarrow> string list \<Rightarrow> string" where
  "joinWith sep [] = []"
| "joinWith sep [x] = x"
| "joinWith sep (x # y # ys) = x @ sep # joinWith sep (y # ys)"

text \<open>\<open>a || b\<close> on strings: the empty string is falsy.\<close>

definition orElse :: "string \<Rightarrow> string \<Rightarrow> string" where
  "orElse a b = (if a = [] then b else a)"

section \<open>AgentController: classifying the request\<close>

record parsed_request =
  command :: string
  parameters :: string
  isExplicitCommand :: bool
  originalInput :: "string option"

text \<open>
  The keyword table of \<open>inferCommand\<close>, in the order of the object literal
  (\<open>Object.entries\<close> enumerates string keys in insertion order).
\<close>

definition commandKeywords :: "(string \<times> string list) list" where
  "commandKeywords =
    [(''summarize'', [''summarize'', ''summary'', ''sum up'', ''brief'', ''overview'']),
     (''rewrite'', [''rewrite'', ''rephrase'', ''improve'', ''edit'', ''revise'']),
     (''explain'', [''explain'', ''clarify'', ''what does'', ''what is'', ''help me understand'']),
     (''generate'', [''generate'', ''create'', ''write'', ''compose'', ''draft'']),
     (''analyze'', [''analyze'', ''review'', ''examine'', ''assess'', ''evaluate'']),
     (''translate'', [''translate'', ''convert to'', ''in spanish'', ''in french'']),
     (''format'', [''format'', ''style'', ''make it'', ''change to''])]"

text \<open>\<open>words.some(word => input.includes(word))\<close>.\<close>

definition someIncluded :: "string list \<Rightarrow> string \<Rightarrow> bool" where
  "someIncluded ws input = list_ex (\<lambda>w. str_includes input w) ws"

text \<open>The \<open>for ... of Object.entries(table)\<close> loop: the first entry with a hit returns.\<close>

fun firstEntry :: "('a \<Rightarrow> bool) \<Rightarrow> (string \<times> 'a) list \<Rightarrow> string option" where
  "firstEntry hit [] = None"
| "firstEntry hit ((name, x) # rest) = (if hit x then Some name else firstEntry hit rest)"

definition inferCommand :: "string \<Rightarrow> string" where
  "inferCommand input =
     (case firstEntry (\<lambda>ws. someIncluded ws input) commandKeywords of
        Some c \<Rightarrow> c
      | None \<Rightarrow> ''general'')"

definition parseUserInput :: "string \<Rightarrow> parsed_request" where
  "parseUserInput input =
     (let trimmedInput = toLowerCase (trim input)
      in if startsWith trimmedInput ''/''
         then (let parts = splitOn (CHR '' '') (drop 1 trimmedInput)
               in \<lparr> command = hd parts,
                    parameters = joinWith (CHR '' '') (tl parts),
                    isExplicitCommand = True,
                    originalInput = None \<rparr>)
         else \<lparr> command = inferCommand trimmedInput,
                parameters = input,
                isExplicitCommand = False,
                originalInput = Some input \<rparr>)"

text \<open>
  The reading of the specification's "first whitespace-delimited token": the characters up
  to the first white space character.
\<close>

definition firstWhitespaceToken :: "string \<Rightarrow> string" where
  "firstWhitespaceToken s = takeWhile (\<lambda>c. \<not> isWhiteSpace c) s"

text \<open>\<open>w\<close> occurs somewhere in \<open>s\<close>.\<close>

definition occursIn :: "string \<Rightarrow> string \<Rightarrow> bool" where
  "occursIn w s = (\<exists>pre post. s = pre @ w @ post)"

text \<open>
  The reading of "the first command, in table order, with a matching pattern, else the
  default": \<open>c\<close> is the name of the first entry of \<open>tbl\<close> that \<open>hit\<close> accepts,
  or \<open>dflt\<close> when \<open>hit\<close> accepts no entry.
\<close>

definition firstHitOrDefault ::
  "('a \<Rightarrow> bool) \<Rightarrow> (string \<times> 'a) list \<Rightarrow> string \<Rightarrow> string \<Rightarrow> bool" where
  "firstHitOrDefault hit tbl dflt c =
     ((\<exists>i < length tbl. c = fst (tbl ! i) \<and> hit (snd (tbl ! i)) \<and>
          (\<forall>j < i. \<not> hit (snd (tbl ! j))))
      \<or> (c = dflt \<and> (\<forall>e \<in> set tbl. \<not> hit (snd e))))"

subsection \<open>The alternative controller: \<open>parseCommand\<close> with regular expressions\<close>

text \<open>
  The patterns of \<open>parseCommand\<close> are literals, and two of the form \<open>/a.*b/\<close>; all carry
  the flag \<open>i\<close>. \<open>.\<close> matches every character but a line terminator. Two characters are
  equal under \<open>i\<close> when their lower-case forms are (in the Latin-1 range this is the
  canonicalisation of the language standard).
\<close>

datatype pattern = Lit string | LitDotStarLit string string

fun matchLiteralCI :: "string \<Rightarrow> string \<Rightarrow> bool" where
  "matchLiteralCI s [] = True"
| "matchLiteralCI [] (p # ps) = False"
| "matchLiteralCI (c # cs) (p # ps) = (toLowerChar c = toLowerChar p \<and> matchLiteralCI cs ps)"

text \<open>\<open>.*b\<close> matches at the head of \<open>s\<close>.\<close>

fun matchDotStarThen :: "string \<Rightarrow> string \<Rightarrow> bool" where
  "matchDotStarThen [] b = matchLiteralCI [] b"
| "matchDotStarThen (c # cs) b =
     (matchLiteralCI (c # cs) b \<or> (\<not> isLineTerminator c \<and> matchDotStarThen cs b))"

fun matchAt :: "pattern \<Rightarrow> string \<Rightarrow> bool" where
  "matchAt (Lit w) s = matchLiteralCI s w"
| "matchAt (LitDotStarLit a b) s =
     (matchLiteralCI s a \<and> matchDotStarThen (drop (length a) s) b)"

text \<open>\<open>pattern.test(s)\<close>: the pattern matches at some position of \<open>s\<close>.\<close>

fun regexTest :: "pattern \<Rightarrow> string \<Rightarrow> bool" where
  "regexTest p [] = matchAt p []"
| "regexTest p (c # cs) = (matchAt p (c # cs) \<or> regexTest p cs)"

definition commandPatterns :: "(string \<times> pattern list) list" where
  "commandPatterns =
    [(''summarize'', [Lit ''summarize'', Lit ''summary'', Lit ''sum up'', Lit ''brief'',
                      Lit ''overview'']),
     (''rewrite'', [Lit ''rewrite'', Lit ''improve'', Lit ''enhance'', Lit ''better'',
                    Lit ''rephrase'', Lit ''revise'']),
     (''explain'', [Lit ''explain'', Lit ''clarify'', LitDotStarLit ''what does'' ''mean'',
                    Lit ''help me understand'', Lit ''break down'']),
     (''generate'', [Lit ''generate'', Lit ''create'', Lit ''write'', Lit ''compose'',
                     Lit ''draft'']),
     (''translate'', [Lit ''translate'', Lit ''translation'', LitDotStarLit ''convert'' ''to'']),
     (''format'', [Lit ''format'', Lit ''structure'', Lit ''organize'', Lit ''layout''])]"

record parsed_command =
  tool :: string
  originalCommand :: string
  confidence :: rat

text \<open>The two nested \<open>for\<close> loops return at the first pattern of the first tool that tests true.\<close>

definition somePatternTests :: "pattern list \<Rightarrow> string \<Rightarrow> bool" where
  "somePatternTests ps text = list_ex (\<lambda>p. regexTest p text) ps"

definition parseCommand :: "string \<Rightarrow> parsed_command" where
  "parseCommand cmd =
     (let normalizedCommand = trim (toLowerCase cmd)
      in case firstEntry (\<lambda>ps. somePatternTests ps normalizedCommand) commandPatterns of
           Some toolName \<Rightarrow>
             \<lparr> tool = toolName, originalCommand = cmd, confidence = 8 / 10 \<rparr>
         | None \<Rightarrow>
             \<lparr> tool = ''generate'', originalCommand = cmd, confidence = 5 / 10 \<rparr>)"


section \<open>Parameter extractors of the tools\<close>

subsection \<open>RewriteTool\<close>

definition styles :: "(string \<times> string list) list" where
  "styles =
    [(''formal'', [''formal'', ''professional'', ''business'', ''official'']),
     (''casual'', [''casual'', ''informal'', ''conversational'', ''relaxed'']),
     (''academic'', [''academic'', ''scholarly'', ''research'', ''technical'']),
     (''creative'', [''creative'', ''artistic'', ''expressive'', ''imaginative'']),
     (''simple'', [''simple'', ''clear'', ''plain'', ''straightforward'']),
     (''improve'', [''improve'', ''better'', ''enhance'', ''polish''])]"

definition tones :: "(string \<times> string list) list" where
  "tones =
    [(''professional'', [''professional'', ''business'', ''corporate'']),
     (''friendly'', [''friendly'', ''warm'', ''approachable'', ''welcoming'']),
     (''persuasive'', [''persuasive'', ''convincing'', ''compelling'']),
     (''authoritative'', [''authoritative'', ''confident'', ''expert'']),
     (''empathetic'', [''empathetic'', ''understanding'', ''compassionate'']),
     (''neutral'', [''neutral'', ''objective'', ''balanced''])]"

definition RewriteTool_extractStyle :: "string \<Rightarrow> string" where
  "RewriteTool_extractStyle params =
     (case firstEntry (\<lambda>ws. someIncluded ws params) styles of
        Some style \<Rightarrow> style
      | None \<Rightarrow> ''improve'')"

definition RewriteTool_extractTone :: "string \<Rightarrow> string" where
  "RewriteTool_extractTone params =
     (case firstEntry (\<lambda>ws. someIncluded ws params) tones of
        Some tone \<Rightarrow> tone
      | None \<Rightarrow> ''neutral'')"

definition extractLengthPreference :: "string \<Rightarrow> string" where
  "extractLengthPreference params =
     (if str_includes params ''shorter'' \<or> str_includes params ''concise''
         \<or> str_includes params ''brief'' then ''shorter''
      else if str_includes params ''longer'' \<or> str_includes params ''expand''
         \<or> str_includes params ''elaborate'' then ''longer''
      else ''same'')"

text \<open>
  The values the tool documents: the keys of the description tables of
  \<open>getStyleDescription\<close>, \<open>getToneDescription\<close> and \<open>getLengthDescription\<close>.
\<close>

definition styleDescriptions :: "(string \<times> string) list" where
  "styleDescriptions =
    [(''formal'', ''Professional and formal language, suitable for business or official documents''),
     (''casual'', ''Conversational and relaxed tone, as if speaking to a friend''),
     (''academic'', ''Scholarly and precise language, suitable for research or educational content''),
     (''creative'', ''Expressive and imaginative language with vivid descriptions''),
     (''simple'', ''Clear and straightforward language, easy to understand''),
     (''improve'', ''Enhanced version with better word choice, structure, and clarity'')]"

definition toneDescriptions :: "(string \<times> string) list" where
  "toneDescriptions =
    [(''professional'', ''Maintain a professional and business-appropriate tone''),
     (''friendly'', ''Use a warm, approachable, and friendly tone''),
     (''persuasive'', ''Write in a compelling and convincing manner''),
     (''authoritative'', ''Use confident and expert language''),
     (''empathetic'', ''Show understanding and compassion''),
     (''neutral'', ''Maintain an objective and balanced tone'')]"

definition lengthDescriptions :: "(string \<times> string) list" where
  "lengthDescriptions =
    [(''shorter'', ''Make it more concise while preserving all key information''),
     (''longer'', ''Expand with additional details, examples, or explanations''),
     (''same'', ''Keep approximately the same length'')]"

subsection \<open>SummarizeTool\<close>

text \<open>\<open>if (!parameters) return ...\<close>: the empty string is falsy.\<close>

definition SummarizeTool_extractStyle :: "string \<Rightarrow> string" where
  "SummarizeTool_extractStyle ps =
     (if ps = [] then ''concise''
      else let lowerParams = toLowerCase ps
           in if str_includes lowerParams ''bullet'' \<or> str_includes lowerParams ''points''
                 \<or> str_includes lowerParams ''list'' then ''bullet-points''
              else if str_includes lowerParams ''detailed''
                 \<or> str_includes lowerParams ''comprehensive''
                 \<or> str_includes lowerParams ''thorough'' then ''detailed''
              else ''concise'')"

definition extractLength :: "string \<Rightarrow> string" where
  "extractLength ps =
     (if ps = [] then ''medium''
      else let lowerParams = toLowerCase ps
           in if str_includes lowerParams ''short'' \<or> str_includes lowerParams ''brief''
                 \<or> str_includes lowerParams ''quick'' then ''short''
              else if str_includes lowerParams ''long'' \<or> str_includes lowerParams ''detailed''
                 \<or> str_includes lowerParams ''extensive'' then ''long''
              else ''medium'')"

text \<open>
  The values the tool documents in \<open>this.parameters\<close>: "Summary style (concise, detailed,
  bullet-points)" and "Summary length (short, medium, long)".
\<close>

definition summaryStyles :: "string list" where
  "summaryStyles = [''concise'', ''detailed'', ''bullet-points'']"

definition summaryLengths :: "string list" where
  "summaryLengths = [''short'', ''medium'', ''long'']"

definition getMaxTokensForLength :: "string \<Rightarrow> int" where
  "getMaxTokensForLength ps =
     (let len = extractLength ps
      in if len = ''short'' then 100 else if len = ''long'' then 800 else 300)"


subsection \<open>The translate and format tools of the integration file\<close>

text \<open>
  \<open>extractTargetLanguage\<close> and \<open>extractFormatType\<close> of \<open>AgentIntegration.gs\<close>, which
  take the parameter string.
\<close>

definition languages :: "(string \<times> string) list" where
  "languages =
    [(''spanish'', ''Spanish''), (''french'', ''French''), (''german'', ''German''),
     (''italian'', ''Italian''), (''portuguese'', ''Portuguese''), (''chinese'', ''Chinese''),
     (''japanese'', ''Japanese''), (''korean'', ''Korean''), (''russian'', ''Russian''),
     (''arabic'', ''Arabic'')]"

fun firstIncludedKey :: "(string \<times> string) list \<Rightarrow> string \<Rightarrow> string option" where
  "firstIncludedKey [] params = None"
| "firstIncludedKey ((key, val) # rest) params =
     (if str_includes params key then Some val else firstIncludedKey rest params)"

definition extractTargetLanguage :: "string \<Rightarrow> string" where
  "extractTargetLanguage ps =
     (let lowerParams = toLowerCase ps
      in case firstIncludedKey languages lowerParams of
           Some language \<Rightarrow> language
         | None \<Rightarrow> ''English'')"

definition extractFormatType :: "string \<Rightarrow> string" where
  "extractFormatType ps =
     (let lowerParams = toLowerCase ps
      in if str_includes lowerParams ''bullet'' \<or> str_includes lowerParams ''list''
         then ''bullet points''
         else if str_includes lowerParams ''table'' then ''a table''
         else if str_includes lowerParams ''outline'' then ''an outline''
         else if str_includes lowerParams ''paragraph'' then ''paragraphs''
         else ''a well-structured format'')"

text \<open>The values these two can return: the values of the table and the default.\<close>

definition targetLanguages :: "string list" where
  "targetLanguages = map snd languages @ [''English'']"

definition formatTypes :: "string list" where
  "formatTypes =
     [''bullet points'', ''a table'', ''an outline'', ''paragraphs'', ''a well-structured format'']"


section \<open>Provider clients\<close>

text \<open>
  The configuration object of a provider client. The numbers the clients compute with are
  token and character counts; they are modelled as integers.
\<close>

record provider_config =
  apiKey :: string
  model :: string
  baseURL :: string
  maxTokens :: int
  temperature :: rat
  timeout :: int

text \<open>\<open>a || b\<close> on an optional number: \<open>undefined\<close> and \<open>0\<close> are falsy.\<close>

definition numOr :: "int option \<Rightarrow> int \<Rightarrow> int" where
  "numOr a b = (case a of None \<Rightarrow> b | Some n \<Rightarrow> if n = 0 then b else n)"

text \<open>\<open>Math.ceil(text.length / 4)\<close>.\<close>

definition estimateTokenCount :: "string \<Rightarrow> int" where
  "estimateTokenCount text = (int (length text) + 3) div 4"

text \<open>\<open>s.substring(0, n)\<close>: an end below 0 counts as 0, an end beyond the length as the length.\<close>

definition substring0 :: "string \<Rightarrow> int \<Rightarrow> string" where
  "substring0 s n = take (nat n) s"

subsection \<open>OpenAIClient, first variant: \<open>truncateToTokenLimit\<close>\<close>

definition exceedsTokenLimit :: "provider_config \<Rightarrow> string \<Rightarrow> int option \<Rightarrow> bool" where
  "exceedsTokenLimit cfg text maxTok =
     (let limit = numOr maxTok (maxTokens cfg);
          estimatedTokens = estimateTokenCount text
      in estimatedTokens > limit)"

definition truncateToTokenLimit :: "provider_config \<Rightarrow> string \<Rightarrow> int option \<Rightarrow> string" where
  "truncateToTokenLimit cfg text maxTok =
     (let limit = numOr maxTok (maxTokens cfg)
      in if \<not> exceedsTokenLimit cfg text (Some limit) then text
         else (let maxChars = limit * 4;
                   truncated = substring0 text (maxChars - 100)
               in truncated @ ''... [truncated]''))"

subsection \<open>OpenAIClient (second variant) and GeminiClient: \<open>truncatePrompt\<close>\<close>

record truncate_options =
  o_maxTokens :: "int option"
  o_reservedTokens :: "int option"

text \<open>
  The two clients differ in the context limit only: 8192 or 4096 by the model name for
  OpenAI, 30000 for Gemini. The bodies of \<open>isWithinTokenLimits\<close> and \<open>truncatePrompt\<close>
  are otherwise the same text, modelled once with the limit as an argument.
\<close>

definition OpenAIClient_contextLimit :: "provider_config \<Rightarrow> int" where
  "OpenAIClient_contextLimit cfg = (if str_includes (model cfg) ''gpt-4'' then 8192 else 4096)"

definition GeminiClient_contextLimit :: int where
  "GeminiClient_contextLimit = 30000"

definition isWithinTokenLimits ::
  "int \<Rightarrow> provider_config \<Rightarrow> string \<Rightarrow> truncate_options \<Rightarrow> bool" where
  "isWithinTokenLimits contextLimit cfg prompt options =
     (let maxTok = numOr (o_maxTokens options) (maxTokens cfg);
          estimatedInputTokens = estimateTokenCount prompt;
          totalEstimated = estimatedInputTokens + maxTok
      in totalEstimated \<le> contextLimit)"

definition truncatePrompt ::
  "int \<Rightarrow> provider_config \<Rightarrow> string \<Rightarrow> truncate_options \<Rightarrow> string" where
  "truncatePrompt contextLimit cfg prompt options =
     (let maxTok = numOr (o_maxTokens options) (maxTokens cfg);
          reservedTokens = numOr (o_reservedTokens options) 500;
          maxInputTokens = contextLimit - maxTok - reservedTokens;
          maxInputChars = maxInputTokens * 4
      in if int (length prompt) \<le> maxInputChars then prompt
         else substring0 prompt maxInputChars @ ''...'')"

definition OpenAIClient_isWithinTokenLimits ::
  "provider_config \<Rightarrow> string \<Rightarrow> truncate_options \<Rightarrow> bool" where
  "OpenAIClient_isWithinTokenLimits cfg = isWithinTokenLimits (OpenAIClient_contextLimit cfg) cfg"

definition OpenAIClient_truncatePrompt ::
  "provider_config \<Rightarrow> string \<Rightarrow> truncate_options \<Rightarrow> string" where
  "OpenAIClient_truncatePrompt cfg = truncatePrompt (OpenAIClient_contextLimit cfg) cfg"

definition GeminiClient_isWithinTokenLimits ::
  "provider_config \<Rightarrow> string \<Rightarrow> truncate_options \<Rightarrow> bool" where
  "GeminiClient_isWithinTokenLimits cfg = isWithinTokenLimits GeminiClient_contextLimit cfg"

definition GeminiClient_truncatePrompt ::
  "provider_config \<Rightarrow> string \<Rightarrow> truncate_options \<Rightarrow> string" where
  "GeminiClient_truncatePrompt cfg = truncatePrompt GeminiClient_contextLimit cfg"

text \<open>
  The configuration the OpenAI constructor builds from \<open>{apiKey: key}\<close>: model
  \<open>gpt-4\<close>, 4000 tokens, temperature 0.7, 30 seconds.
\<close>

definition OpenAIClient_defaults :: "string \<Rightarrow> provider_config" where
  "OpenAIClient_defaults key =
     \<lparr> apiKey = key, model = ''gpt-4'', baseURL = ''https://api.openai.com/v1'',
       maxTokens = 4000, temperature = 7 / 10, timeout = 30000 \<rparr>"

definition noOptions :: truncate_options where
  "noOptions = \<lparr> o_maxTokens = None, o_reservedTokens = None \<rparr>"


section \<open>MemoryManager: the interaction log\<close>

record document_context =
  selection :: string
  content :: string
  documentId :: string
  documentName :: string

text \<open>
  What \<open>storeInteraction\<close> reads of the response it stores: the optional fields
  \<open>tool\<close>, \<open>success\<close> and \<open>processingTime\<close>; \<open>r_body\<close> stands for the rest.
\<close>

record ai_response =
  r_tool :: "string option"
  r_success :: "bool option"
  r_processingTime :: "int option"
  r_body :: string

text \<open>
  A stored interaction. The source keeps the time as an ISO string of millisecond
  precision and parses it back for every comparison; the model keeps the milliseconds.
\<close>

record interaction =
  iid :: string
  timestamp :: int
  userInput :: string
  aiResponse :: ai_response
  ctx_selection :: string
  ctx_documentId :: string
  ctx_documentName :: string
  md_tool :: string
  md_success :: bool
  md_processingTime :: int

record memory_config =
  maxHistoryItems :: int
  maxHistoryAge :: int
  persistToStorage :: bool
  storageKey :: string

record memory_manager =
  config :: memory_config
  conversationHistory :: "interaction list"

text \<open>The configuration and state the constructor builds from \<open>{}\<close> with empty storage.\<close>

definition MemoryManager_defaultConfig :: memory_config where
  "MemoryManager_defaultConfig =
     \<lparr> maxHistoryItems = 50, maxHistoryAge = 24 * 60 * 60 * 1000,
       persistToStorage = True, storageKey = ''ai_agent_memory'' \<rparr>"

definition MemoryManager_new :: memory_manager where
  "MemoryManager_new = \<lparr> config = MemoryManager_defaultConfig, conversationHistory = [] \<rparr>"

text \<open>\<open>xs.slice(0, k)\<close>: a negative end counts from the end of the array.\<close>

definition slice0 :: "'a list \<Rightarrow> int \<Rightarrow> 'a list" where
  "slice0 xs k = (if k < 0 then take (nat (int (length xs) + k)) xs else take (nat k) xs)"

text \<open>
  \<open>trimHistory\<close>; \<open>now\<close> is the value of \<open>Date.now()\<close>. A \<open>Date\<close> holds a time
  of at most 8.64e15 milliseconds either side of the epoch; \<open>new Date(t)\<close> of another
  \<open>t\<close> is an invalid date, every comparison with it is false, and the filter then keeps
  no entry. The stamps of the entries are clock values and valid.
\<close>

definition validTime :: "int \<Rightarrow> bool" where
  "validTime t = (- 8640000000000000 \<le> t \<and> t \<le> 8640000000000000)"

definition trimHistory :: "int \<Rightarrow> memory_manager \<Rightarrow> memory_manager" where
  "trimHistory now m =
     (let cutoffDate = now - maxHistoryAge (config m);
          kept = (if validTime cutoffDate
                  then filter (\<lambda>item. timestamp item \<ge> cutoffDate) (conversationHistory m)
                  else [])
      in if int (length kept) > maxHistoryItems (config m)
         then m\<lparr> conversationHistory := slice0 kept (maxHistoryItems (config m)) \<rparr>
         else m\<lparr> conversationHistory := kept \<rparr>)"

text \<open>
  One call of \<open>storeInteraction\<close>: the generated id, the clock when the entry is stamped,
  the clock when \<open>trimHistory\<close> runs, and the three arguments.
\<close>

record store_call =
  c_id :: string
  c_stamp :: int
  c_now :: int
  c_userInput :: string
  c_aiResponse :: ai_response
  c_context :: document_context

definition newInteraction :: "store_call \<Rightarrow> interaction" where
  "newInteraction c =
     \<lparr> iid = c_id c,
       timestamp = c_stamp c,
       userInput = c_userInput c,
       aiResponse = c_aiResponse c,
       ctx_selection = selection (c_context c),
       ctx_documentId = documentId (c_context c),
       ctx_documentName = documentName (c_context c),
       md_tool = (case r_tool (c_aiResponse c) of
                    None \<Rightarrow> ''unknown'' | Some t \<Rightarrow> orElse t ''unknown''),
       md_success = (case r_success (c_aiResponse c) of None \<Rightarrow> False | Some b \<Rightarrow> b),
       md_processingTime = numOr (r_processingTime (c_aiResponse c)) 0 \<rparr>"

text \<open>
  \<open>storeInteraction\<close> puts the entry at the front (\<open>unshift\<close>), trims, and returns the
  entry. \<open>saveToStorage\<close> writes a copy to the property store and catches its own
  errors; it does not change the manager.
\<close>

definition storeInteraction :: "memory_manager \<Rightarrow> store_call \<Rightarrow> interaction \<times> memory_manager" where
  "storeInteraction m c =
     (let interaction = newInteraction c;
          m1 = m\<lparr> conversationHistory := interaction # conversationHistory m \<rparr>;
          m2 = trimHistory (c_now c) m1
      in (interaction, m2))"








section \<open>Provider clients: configuration and requests\<close>

text \<open>
  Every \<open>throw\<close> of the repository throws \<open>new Error(message)\<close>; a thrown value is
  modelled by its message, and a computation that may throw returns
  \<open>js_error + 'a\<close>.
\<close>

datatype js_error = Error (message: string)

text \<open>
  The argument of \<open>updateConfig\<close>: an object with any subset of the configuration's
  keys. \<open>{...this.config, ...newConfig}\<close> takes each key from \<open>newConfig\<close> when it is
  there.
\<close>

record config_update =
  n_apiKey :: "string option"
  n_model :: "string option"
  n_baseURL :: "string option"
  n_maxTokens :: "int option"
  n_temperature :: "rat option"
  n_timeout :: "int option"

definition mergeConfig :: "provider_config \<Rightarrow> config_update \<Rightarrow> provider_config" where
  "mergeConfig cfg new =
     \<lparr> apiKey = (case n_apiKey new of None \<Rightarrow> apiKey cfg | Some v \<Rightarrow> v),
       model = (case n_model new of None \<Rightarrow> model cfg | Some v \<Rightarrow> v),
       baseURL = (case n_baseURL new of None \<Rightarrow> baseURL cfg | Some v \<Rightarrow> v),
       maxTokens = (case n_maxTokens new of None \<Rightarrow> maxTokens cfg | Some v \<Rightarrow> v),
       temperature = (case n_temperature new of None \<Rightarrow> temperature cfg | Some v \<Rightarrow> v),
       timeout = (case n_timeout new of None \<Rightarrow> timeout cfg | Some v \<Rightarrow> v) \<rparr>"

definition OpenAIClient_validateConfig :: "provider_config \<Rightarrow> js_error + unit" where
  "OpenAIClient_validateConfig cfg =
     (if apiKey cfg = [] then Inl (Error ''OpenAI API key is required'')
      else if \<not> startsWith (apiKey cfg) ''sk-'' then Inl (Error ''Invalid OpenAI API key format'')
      else Inr ())"

definition GeminiClient_validateConfig :: "provider_config \<Rightarrow> js_error + unit" where
  "GeminiClient_validateConfig cfg =
     (if apiKey cfg = [] then Inl (Error ''Gemini API key is required'') else Inr ())"

text \<open>
  \<open>updateConfig\<close> assigns \<open>this.config\<close> and then validates: the result is the stored
  configuration after the call, and whether the call threw.
\<close>

definition OpenAIClient_updateConfig ::
  "provider_config \<Rightarrow> config_update \<Rightarrow> provider_config \<times> (js_error + unit)" where
  "OpenAIClient_updateConfig cfg newConfig =
     (let stored = mergeConfig cfg newConfig
      in (stored, OpenAIClient_validateConfig stored))"

definition GeminiClient_updateConfig ::
  "provider_config \<Rightarrow> config_update \<Rightarrow> provider_config \<times> (js_error + unit)" where
  "GeminiClient_updateConfig cfg newConfig =
     (let stored = mergeConfig cfg newConfig
      in (stored, GeminiClient_validateConfig stored))"

text \<open>\<open>getConfig\<close>: every key but \<open>apiKey\<close>, and \<open>apiKeySet: !!apiKey\<close>.\<close>

record safe_config =
  s_model :: string
  s_baseURL :: string
  s_maxTokens :: int
  s_temperature :: rat
  s_timeout :: int
  apiKeySet :: bool

definition getConfig :: "provider_config \<Rightarrow> safe_config" where
  "getConfig cfg =
     \<lparr> s_model = model cfg, s_baseURL = baseURL cfg, s_maxTokens = maxTokens cfg,
       s_temperature = temperature cfg, s_timeout = timeout cfg,
       apiKeySet = (apiKey cfg \<noteq> []) \<rparr>"

text \<open>Decimal digits of a number, as template literals and \<open>console.log\<close> print them.\<close>

fun showNat :: "nat \<Rightarrow> string" where
  "showNat n = (if n < 10 then [char_of (48 + n)]
                else showNat (n div 10) @ [char_of (48 + n mod 10)])"

definition showInt :: "int \<Rightarrow> string" where
  "showInt i = (if i < 0 then CHR ''-'' # showNat (nat (- i)) else showNat (nat i))"

record http_response =
  responseCode :: int
  responseText :: string

text \<open>
  \<open>GeminiClient.makeAPIRequest\<close>. The arguments after the endpoint are what the
  environment supplies: \<open>JSON.stringify(data)\<close> plain and indented, what
  \<open>UrlFetchApp.fetch\<close> does (it throws or answers), and \<open>JSON.parse\<close>. The result is
  the list of lines written with \<open>console.log\<close> and \<open>console.error\<close>, in order, and the
  outcome. A console call prints its arguments separated by a space; an error is
  printed by its message and the options object by its payload.
\<close>

definition GeminiClient_makeAPIRequest ::
  "provider_config \<Rightarrow> string \<Rightarrow> string \<Rightarrow> string \<Rightarrow> (js_error + http_response)
     \<Rightarrow> (string \<Rightarrow> js_error + 'j) \<Rightarrow> string list \<times> (js_error + 'j)" where
  "GeminiClient_makeAPIRequest cfg endpoint payload pretty fetch parseJSON =
     (let url = baseURL cfg @ endpoint @ ''?key='' @ apiKey cfg;
          logs0 = [''Making API request to: '' @ url, ''Request payload: '' @ pretty];
          failed = (\<lambda>logs e.
             (logs @ [''API request failed: '' @ message e, ''URL: '' @ url,
                      ''Options: '' @ payload],
              Inl (Error (''API request failed: '' @ message e))))
      in case fetch of
           Inl e \<Rightarrow> failed logs0 e
         | Inr response \<Rightarrow>
             (let logs1 = logs0 @ [''Response code: '' @ showInt (responseCode response),
                                   ''Response text: '' @ responseText response]
              in if responseCode response \<noteq> 200
                 then failed logs1
                        (Error (''HTTP '' @ showInt (responseCode response) @ '': ''
                                 @ responseText response))
                 else (case parseJSON (responseText response) of
                         Inl e \<Rightarrow> failed logs1 e
                       | Inr responseData \<Rightarrow> (logs1, Inr responseData))))"

text \<open>The configuration the Gemini constructor builds from \<open>{apiKey: key}\<close>.\<close>

definition GeminiClient_defaults :: "string \<Rightarrow> provider_config" where
  "GeminiClient_defaults key =
     \<lparr> apiKey = key, model = ''gemini-1.5-flash'',
       baseURL = ''https://generativelanguage.googleapis.com/v1beta'',
       maxTokens = 4000, temperature = 7 / 10, timeout = 30000 \<rparr>"

definition noUpdate :: config_update where
  "noUpdate = \<lparr> n_apiKey = None, n_model = None, n_baseURL = None, n_maxTokens = None,
                n_temperature = None, n_timeout = None \<rparr>"


section \<open>The tools\<close>

subsection \<open>Regular expressions of the tools\<close>

text \<open>
  \<open>String.prototype.match\<close> with a pattern without the flag \<open>g\<close> tries the start
  positions from left to right and returns the capture of the first position where the
  pattern matches. \<open>firstMatchFrom m s\<close> does this for a matcher \<open>m\<close> that tells
  whether the pattern matches at the head of its argument, and with which capture.
\<close>

fun firstMatchFrom :: "(string \<Rightarrow> 'a option) \<Rightarrow> string \<Rightarrow> 'a option" where
  "firstMatchFrom m [] = m []"
| "firstMatchFrom m (c # cs) =
     (case m (c # cs) of Some r \<Rightarrow> Some r | None \<Rightarrow> firstMatchFrom m cs)"

text \<open>
  \<open>"([^"]+)"\<close> at the head: a quotation mark, one or more other characters, a
  quotation mark. The class \<open>[^"]\<close> can not step over the closing mark, so the greedy
  run is the only candidate.
\<close>

definition quotedAtHead :: "string \<Rightarrow> string option" where
  "quotedAtHead s =
     (case s of
        [] \<Rightarrow> None
      | c # rest \<Rightarrow>
          if c = CHR 0x22
          then (let body = takeWhile (\<lambda>d. d \<noteq> CHR 0x22) rest;
                    closing = dropWhile (\<lambda>d. d \<noteq> CHR 0x22) rest
                in if body \<noteq> [] \<and> closing \<noteq> [] then Some body else None)
          else None)"

text \<open>\<open>/summarize:\s*"([^"]+)"/\<close> at the head (no flag: the case matters).\<close>

definition summarizeQuotedAt :: "string \<Rightarrow> string option" where
  "summarizeQuotedAt s =
     (if startsWith s ''summarize:''
      then quotedAtHead (dropWhile isWhiteSpace (drop 10 s))
      else None)"

text \<open>\<open>/explain\s+"([^"]+)"/i\<close> at the head.\<close>

definition explainQuotedAt :: "string \<Rightarrow> string option" where
  "explainQuotedAt s =
     (if matchLiteralCI s ''explain''
      then (let rest = drop 7 s
            in if rest \<noteq> [] \<and> isWhiteSpace (hd rest)
               then quotedAtHead (dropWhile isWhiteSpace rest)
               else None)
      else None)"

text \<open>
  \<open>(.+?)(?:\?|$)\<close> at the head: the lazy group takes one character that is not a line
  terminator and then as few more as possible until a question mark or the end of the
  input follows; a line terminator in the way makes the attempt fail.
\<close>

fun lazyUntilEnd :: "string \<Rightarrow> string \<Rightarrow> string option" where
  "lazyUntilEnd acc [] = Some acc"
| "lazyUntilEnd acc (d # ds) =
     (if d = CHR ''?'' then Some acc
      else if isLineTerminator d then None
      else lazyUntilEnd (acc @ [d]) ds)"

definition lazyCapture :: "string \<Rightarrow> string option" where
  "lazyCapture s =
     (case s of
        [] \<Rightarrow> None
      | c # cs \<Rightarrow> if isLineTerminator c then None else lazyUntilEnd [c] cs)"

fun firstSome :: "'a option list \<Rightarrow> 'a option" where
  "firstSome [] = None"
| "firstSome (Some r # rest) = Some r"
| "firstSome (None # rest) = firstSome rest"

text \<open>
  \<open>\s+(.+?)(?:\?|$)\<close> at the head: the greedy \<open>\s+\<close> first takes the whole run of
  white space and gives characters back one at a time, down to one, until the rest
  matches.
\<close>

definition spacesThenCapture :: "string \<Rightarrow> string option" where
  "spacesThenCapture s =
     (let n = length (takeWhile isWhiteSpace s)
      in firstSome (map (\<lambda>k. lazyCapture (drop k s)) (rev [1 ..< Suc n])))"

text \<open>
  \<open>/what\s+(?:is|does|are)\s+(.+?)(?:\?|$)/i\<close> at the head. After \<open>what\<close> the run
  of white space must be taken whole, since a letter follows; the alternatives are tried
  in their order.
\<close>

definition whatAt :: "string \<Rightarrow> string option" where
  "whatAt s =
     (if matchLiteralCI s ''what''
      then (let rest = drop 4 s
            in if rest \<noteq> [] \<and> isWhiteSpace (hd rest)
               then (let verb = dropWhile isWhiteSpace rest
                     in firstSome
                          (map (\<lambda>w. if matchLiteralCI verb w
                                     then spacesThenCapture (drop (length w) verb)
                                     else None)
                             [''is'', ''does'', ''are'']))
               else None)
      else None)"

subsection \<open>Requests, results and the provider\<close>

record agent_config =
  a_maxTokens :: int
  a_temperature :: rat
  a_model :: string

text \<open>
  \<open>apiClient.generateResponse(prompt, options)\<close>: the generated text, or a thrown error.
  A tool returns its result together with the list of the calls it made to the provider.
\<close>

type_synonym provider = "string \<Rightarrow> agent_config \<Rightarrow> js_error + string"

record ('r, 'm) tool_result =
  success :: bool
  result :: "'r option"
  error :: "string option"
  metadata :: "'m option"

definition failure :: "string \<Rightarrow> ('r, 'm) tool_result" where
  "failure msg = \<lparr> success = False, result = None, error = Some msg, metadata = None \<rparr>"

text \<open>
  \<open>getWordCount\<close>: \<open>text.trim().split(/\s+/).filter(word => word.length > 0).length\<close>,
  the number of maximal runs of characters that are not white space. \<open>splitWords\<close>
  collects the runs; its first argument is the run being read.
\<close>

fun splitWords :: "string \<Rightarrow> string \<Rightarrow> string list" where
  "splitWords cur [] = (if cur = [] then [] else [cur])"
| "splitWords cur (c # cs) =
     (if isWhiteSpace c
      then (if cur = [] then splitWords [] cs else cur # splitWords [] cs)
      else splitWords (cur @ [c]) cs)"

definition getWordCount :: "string \<Rightarrow> nat" where
  "getWordCount text = (if text = [] then 0 else length (splitWords [] text))"

text \<open>
  \<open>(p / q).toFixed(2)\<close> for counts \<open>p\<close> and \<open>q > 0\<close>: the quotient rounded to
  hundredths, a tie upwards, with two decimals. The source divides in double precision;
  the model rounds the exact quotient, which gives the same digits unless \<open>100 * p / q\<close>
  lies within the rounding error of a half.
\<close>

definition toFixed2 :: "nat \<Rightarrow> nat \<Rightarrow> string" where
  "toFixed2 p q =
     (let h = (200 * p + q) div (2 * q)
      in showNat (h div 100) @ ''.'' @ showNat (h mod 100 div 10) @ showNat (h mod 10))"

subsection \<open>SummarizeTool\<close>

text \<open>
  The text the user quoted after \<open>summarize:\<close>, looked for only when the request
  includes that word.
\<close>

definition summarizeQuotedText :: "string \<Rightarrow> string option" where
  "summarizeQuotedText params =
     (if params \<noteq> [] \<and> str_includes params ''summarize:''
      then firstMatchFrom summarizeQuotedAt params
      else None)"

definition getTextToSummarize :: "parsed_request \<Rightarrow> document_context \<Rightarrow> string" where
  "getTextToSummarize request context =
     (case summarizeQuotedText (parameters request) of
        Some textMatch \<Rightarrow> textMatch
      | None \<Rightarrow>
          if selection context \<noteq> [] \<and> trim (selection context) \<noteq> []
          then selection context
          else content context)"

definition buildSummarizationPrompt :: "string \<Rightarrow> parsed_request \<Rightarrow> string" where
  "buildSummarizationPrompt text request =
     (let style = SummarizeTool_extractStyle (parameters request);
          len = extractLength (parameters request)
      in ''You are an expert at creating clear, accurate summaries. ''
         @ (if style = ''bullet-points''
            then ''Create a bullet-point summary that captures the key points. ''
            else if style = ''detailed''
            then ''Create a comprehensive summary that covers all important details. ''
            else ''Create a concise summary that captures the main ideas. '')
         @ (if len = ''short'' then ''Keep it brief - 1-2 sentences maximum. ''
            else if len = ''long''
            then ''Provide a thorough summary with multiple paragraphs if needed. ''
            else ''Aim for a moderate length - 3-5 sentences. '')
         @ [CHR 0x0A, CHR 0x0A] @ ''Text to summarize:'' @ [CHR 0x0A, CHR 0x22] @ text
         @ [CHR 0x22, CHR 0x0A, CHR 0x0A]
         @ ''Please provide the summary now:'')"

record summary_statistics =
  originalWords :: nat
  summaryWords :: nat
  stat_compressionRatio :: string
  originalCharacters :: nat
  summaryCharacters :: nat

record summary_result =
  summary :: string
  statistics :: summary_statistics
  action :: string
  res_timestamp :: int

record summary_metadata =
  originalLength :: nat
  summaryLength :: nat
  compressionRatio :: string
  style :: string
  meta_timestamp :: int

definition formatSummaryResult :: "int \<Rightarrow> string \<Rightarrow> string \<Rightarrow> summary_result" where
  "formatSummaryResult now generated originalText =
     (let cleanSummary = trim generated;
          originalWordCount = getWordCount originalText;
          summaryWordCount = getWordCount cleanSummary
      in \<lparr> summary = cleanSummary,
           statistics =
             \<lparr> originalWords = originalWordCount,
               summaryWords = summaryWordCount,
               stat_compressionRatio =
                 (if originalWordCount > 0 then toFixed2 summaryWordCount originalWordCount
                  else ''0''),
               originalCharacters = length originalText,
               summaryCharacters = length cleanSummary \<rparr>,
           action = ''summarize'',
           res_timestamp = now \<rparr>)"

text \<open>
  \<open>execute\<close>; \<open>now\<close> is the clock. The \<open>catch\<close> of the method turns an error of the
  provider into a failure result.
\<close>

definition SummarizeTool_execute ::
  "provider \<Rightarrow> int \<Rightarrow> parsed_request \<Rightarrow> document_context \<Rightarrow> agent_config
     \<Rightarrow> (summary_result, summary_metadata) tool_result \<times> (string \<times> agent_config) list" where
  "SummarizeTool_execute generateResponse now request context cfg =
     (let textToSummarize = getTextToSummarize request context
      in if textToSummarize = [] \<or> trim textToSummarize = []
         then (failure ''No text available to summarize. Please select text or ensure document has content.'', [])
         else (let prompt = buildSummarizationPrompt textToSummarize request;
                   options = cfg\<lparr> a_maxTokens := getMaxTokensForLength (parameters request) \<rparr>
               in case generateResponse prompt options of
                    Inl e \<Rightarrow> (failure (''Summarization failed: '' @ message e), [(prompt, options)])
                  | Inr generated \<Rightarrow>
                      (let res = formatSummaryResult now generated textToSummarize
                       in (\<lparr> success = True,
                             result = Some res,
                             error = None,
                             metadata = Some
                               \<lparr> originalLength = length textToSummarize,
                                 summaryLength = length (summary res),
                                 compressionRatio =
                                   toFixed2 (length (summary res)) (length textToSummarize),
                                 style = SummarizeTool_extractStyle (parameters request),
                                 meta_timestamp = now \<rparr> \<rparr>,
                           [(prompt, options)]))))"


subsection \<open>RewriteTool\<close>

definition nonBlankSelection :: "document_context \<Rightarrow> bool" where
  "nonBlankSelection context = (selection context \<noteq> [] \<and> trim (selection context) \<noteq> [])"

definition getTextToRewrite :: "parsed_request \<Rightarrow> document_context \<Rightarrow> string" where
  "getTextToRewrite request context =
     (case firstMatchFrom quotedAtHead (parameters request) of
        Some quotedText \<Rightarrow> quotedText
      | None \<Rightarrow> if nonBlankSelection context then selection context else [])"

record rewrite_instructions =
  i_style :: string
  i_tone :: string
  i_length :: string
  specific :: "string list"

definition extractSpecificInstructions :: "string \<Rightarrow> string list" where
  "extractSpecificInstructions params =
     (if str_includes params ''grammar'' then [''Fix grammar and spelling''] else [])
     @ (if str_includes params ''clarity'' then [''Improve clarity''] else [])
     @ (if str_includes params ''flow'' then [''Improve flow and readability''] else [])
     @ (if str_includes params ''active voice'' then [''Use active voice''] else [])
     @ (if str_includes params ''passive voice'' then [''Use passive voice''] else [])
     @ (if str_includes params ''remove jargon''
        then [''Remove jargon and technical terms''] else [])
     @ (if str_includes params ''add examples''
        then [''Add examples or illustrations''] else [])"

definition parseRewriteInstructions :: "parsed_request \<Rightarrow> rewrite_instructions" where
  "parseRewriteInstructions request =
     (let params = toLowerCase (parameters request)
      in \<lparr> i_style = RewriteTool_extractStyle params,
           i_tone = RewriteTool_extractTone params,
           i_length = extractLengthPreference params,
           specific = extractSpecificInstructions params \<rparr>)"

text \<open>\<open>descriptions[key] || descriptions.fallback\<close>.\<close>

definition describe :: "(string \<times> string) list \<Rightarrow> string \<Rightarrow> string \<Rightarrow> string" where
  "describe descriptions fallback key =
     (case map_of descriptions key of
        Some d \<Rightarrow> d
      | None \<Rightarrow> (case map_of descriptions fallback of Some d \<Rightarrow> d | None \<Rightarrow> []))"

definition buildRewritePrompt :: "string \<Rightarrow> rewrite_instructions \<Rightarrow> string" where
  "buildRewritePrompt text instructions =
     ''You are an expert editor and writer. Please rewrite the following text according to these specifications:''
     @ [CHR 0x0A, CHR 0x0A]
     @ ''Style: '' @ describe styleDescriptions ''improve'' (i_style instructions) @ [CHR 0x0A]
     @ ''Tone: '' @ describe toneDescriptions ''neutral'' (i_tone instructions) @ [CHR 0x0A]
     @ ''Length: '' @ describe lengthDescriptions ''same'' (i_length instructions) @ [CHR 0x0A]
     @ (if specific instructions \<noteq> []
        then [CHR 0x0A] @ ''Specific requirements:'' @ [CHR 0x0A]
             @ concat (map (\<lambda>instruction. ''- '' @ instruction @ [CHR 0x0A])
                         (specific instructions))
        else [])
     @ [CHR 0x0A] @ ''Original text:'' @ [CHR 0x0A, CHR 0x22] @ text
     @ [CHR 0x22, CHR 0x0A, CHR 0x0A]
     @ ''Please provide the rewritten version that follows all the above requirements:''"

text \<open>
  The result and the metadata of a rewrite. The metadata field \<open>lengthChange\<close>, a
  formatted percentage, is left out of the model.
\<close>

record rewrite_result =
  originalText :: string
  rewrittenText :: string
  instructions :: rewrite_instructions
  originalWordCount :: nat
  rewrittenWordCount :: nat
  originalCharCount :: nat
  rewrittenCharCount :: nat
  rw_action :: string
  rw_timestamp :: int

record rewrite_metadata =
  rw_originalLength :: nat
  rewrittenLength :: nat
  rw_style :: string
  rw_tone :: string
  rw_meta_timestamp :: int

definition formatRewriteResult ::
  "int \<Rightarrow> string \<Rightarrow> string \<Rightarrow> rewrite_instructions \<Rightarrow> rewrite_result" where
  "formatRewriteResult now generated original instr =
     (let cleanRewritten = trim generated
      in \<lparr> originalText = original,
           rewrittenText = cleanRewritten,
           instructions = instr,
           originalWordCount = getWordCount original,
           rewrittenWordCount = getWordCount cleanRewritten,
           originalCharCount = length original,
           rewrittenCharCount = length cleanRewritten,
           rw_action = ''rewrite'',
           rw_timestamp = now \<rparr>)"

definition RewriteTool_execute ::
  "provider \<Rightarrow> int \<Rightarrow> parsed_request \<Rightarrow> document_context \<Rightarrow> agent_config
     \<Rightarrow> (rewrite_result, rewrite_metadata) tool_result \<times> (string \<times> agent_config) list" where
  "RewriteTool_execute generateResponse now request context cfg =
     (let textToRewrite = getTextToRewrite request context
      in if textToRewrite = [] \<or> trim textToRewrite = []
         then (failure ''No text available to rewrite. Please select text in the document.'', [])
         else (let instr = parseRewriteInstructions request;
                   prompt = buildRewritePrompt textToRewrite instr
               in case generateResponse prompt cfg of
                    Inl e \<Rightarrow> (failure (''Rewriting failed: '' @ message e), [(prompt, cfg)])
                  | Inr generated \<Rightarrow>
                      (let res = formatRewriteResult now generated textToRewrite instr
                       in (\<lparr> success = True,
                             result = Some res,
                             error = None,
                             metadata = Some
                               \<lparr> rw_originalLength = length textToRewrite,
                                 rewrittenLength = length (rewrittenText res),
                                 rw_style = i_style instr,
                                 rw_tone = i_tone instr,
                                 rw_meta_timestamp = now \<rparr> \<rparr>,
                           [(prompt, cfg)]))))"

subsection \<open>ExplainTool\<close>

definition getTextToExplain :: "parsed_request \<Rightarrow> document_context \<Rightarrow> string" where
  "getTextToExplain request context =
     (case firstMatchFrom explainQuotedAt (parameters request) of
        Some concept \<Rightarrow> concept
      | None \<Rightarrow>
          (case firstMatchFrom whatAt (parameters request) of
             Some subject \<Rightarrow> trim subject
           | None \<Rightarrow> if nonBlankSelection context then selection context else []))"

record explain_preferences =
  p_style :: string
  p_audience :: string
  includeExamples :: bool
  depth :: string

definition parseExplanationPreferences :: "parsed_request \<Rightarrow> explain_preferences" where
  "parseExplanationPreferences request =
     (let params = toLowerCase (parameters request)
      in \<lparr> p_style =
             (if str_includes params ''simple'' \<or> str_includes params ''basic'' then ''simple''
              else if str_includes params ''detailed'' \<or> str_includes params ''comprehensive''
              then ''detailed''
              else if str_includes params ''technical'' then ''technical''
              else if str_includes params ''academic'' then ''academic''
              else ''clear''),
           p_audience =
             (if str_includes params ''beginner'' \<or> str_includes params ''novice''
              then ''beginner''
              else if str_includes params ''expert'' \<or> str_includes params ''advanced''
              then ''expert''
              else if str_includes params ''child'' \<or> str_includes params ''kid'' then ''child''
              else ''general''),
           includeExamples =
             (\<not> (str_includes params ''no examples''
                 \<or> str_includes params ''without examples'')),
           depth =
             (if str_includes params ''brief'' \<or> str_includes params ''quick'' then ''brief''
              else if str_includes params ''deep'' \<or> str_includes params ''thorough''
              then ''deep''
              else ''medium'') \<rparr>)"

definition buildExplanationPrompt :: "string \<Rightarrow> explain_preferences \<Rightarrow> string" where
  "buildExplanationPrompt text preferences =
     ''Please explain the following text or concept:'' @ [CHR 0x0A, CHR 0x0A, CHR 0x22] @ text
     @ [CHR 0x22, CHR 0x0A, CHR 0x0A]
     @ (if p_style preferences = ''simple''
        then ''Provide a simple, easy-to-understand explanation. ''
        else if p_style preferences = ''detailed''
        then ''Provide a detailed, comprehensive explanation. ''
        else if p_style preferences = ''technical''
        then ''Provide a technical explanation with precise terminology. ''
        else if p_style preferences = ''academic''
        then ''Provide an academic-style explanation with proper context. ''
        else ''Provide a clear and accessible explanation. '')
     @ (if p_audience preferences = ''beginner''
        then ''Assume the reader is new to this topic. ''
        else if p_audience preferences = ''expert''
        then ''Assume the reader has advanced knowledge in this field. ''
        else if p_audience preferences = ''child''
        then ''Explain it in a way a child could understand. ''
        else ''Assume a general educated audience. '')
     @ (if depth preferences = ''brief'' then ''Keep the explanation concise. ''
        else if depth preferences = ''deep''
        then ''Provide an in-depth explanation with background context. ''
        else ''Provide a moderately detailed explanation. '')
     @ (if includeExamples preferences
        then ''Include relevant examples to illustrate your points. '' else [])
     @ ''Structure your explanation clearly and logically.''"

text \<open>
  The result and the metadata of an explanation. The result fields \<open>keyPoints\<close> and
  \<open>complexity\<close>, computed from the texts alone, are left out of the model.
\<close>

record explain_result =
  explanation :: string
  ex_originalText :: string
  preferences :: explain_preferences
  readingTime :: nat

record explain_metadata =
  ex_originalLength :: nat
  explanationLength :: nat
  ex_style :: string
  audience :: string
  ex_meta_timestamp :: int

definition formatExplanationResult ::
  "string \<Rightarrow> string \<Rightarrow> explain_preferences \<Rightarrow> explain_result" where
  "formatExplanationResult generated original prefs =
     \<lparr> explanation = trim generated,
       ex_originalText = original,
       preferences = prefs,
       readingTime = (getWordCount generated + 199) div 200 \<rparr>"

definition ExplainTool_execute ::
  "provider \<Rightarrow> int \<Rightarrow> parsed_request \<Rightarrow> document_context \<Rightarrow> agent_config
     \<Rightarrow> (explain_result, explain_metadata) tool_result \<times> (string \<times> agent_config) list" where
  "ExplainTool_execute generateResponse now request context cfg =
     (let textToExplain = getTextToExplain request context
      in if textToExplain = [] \<or> trim textToExplain = []
         then (failure ''No text available to explain. Please select text in the document.'', [])
         else (let prefs = parseExplanationPreferences request;
                   prompt = buildExplanationPrompt textToExplain prefs
               in case generateResponse prompt cfg of
                    Inl e \<Rightarrow> (failure (''Explanation failed: '' @ message e), [(prompt, cfg)])
                  | Inr generated \<Rightarrow>
                      (let res = formatExplanationResult generated textToExplain prefs
                       in (\<lparr> success = True,
                             result = Some res,
                             error = None,
                             metadata = Some
                               \<lparr> ex_originalLength = length textToExplain,
                                 explanationLength = length (explanation res),
                                 ex_style = p_style prefs,
                                 audience = p_audience prefs,
                                 ex_meta_timestamp = now \<rparr> \<rparr>,
                           [(prompt, cfg)]))))"

text \<open>An empty document and a configuration, for the examples.\<close>

definition emptyContext :: document_context where
  "emptyContext = \<lparr> selection = [], content = [], documentId = [], documentName = [] \<rparr>"

definition agentDefaults :: agent_config where
  "agentDefaults = \<lparr> a_maxTokens = 4000, a_temperature = 7 / 10, a_model = ''gpt-4'' \<rparr>"


text \<open>A quoted override that is absent, empty or white space only.\<close>

definition blankOrAbsent :: "string option \<Rightarrow> bool" where
  "blankOrAbsent q = (case q of None \<Rightarrow> True | Some t \<Rightarrow> trim t = [])"

text \<open>A provider stub that answers every prompt with the same text.\<close>

definition stubProvider :: "string \<Rightarrow> provider" where
  "stubProvider answer = (\<lambda>prompt options. Inr answer)"


section \<open>AgentController: dispatch\<close>

text \<open>
  What a tool returns: the registered tools return their result objects, the default
  tool returns the generated text itself.
\<close>

datatype tool_output =
  GeneralText string
| SummarizeOutput "(summary_result, summary_metadata) tool_result"
| RewriteOutput "(rewrite_result, rewrite_metadata) tool_result"
| ExplainOutput "(explain_result, explain_metadata) tool_result"

text \<open>
  What can arrive in the \<open>catch\<close> of the dispatcher. A tool registered with the
  controller is any object with an \<open>execute\<close> method, so it may throw any value: an
  \<open>Error\<close> object, \<open>null\<close> or \<open>undefined\<close>, or another value (taken to have no
  property \<open>message\<close>). The handlers read \<open>error.message\<close>: that is the message of an
  \<open>Error\<close>, \<open>undefined\<close> for another value, and for \<open>null\<close> or \<open>undefined\<close> the
  read itself throws a \<open>TypeError\<close>, whose message text is the engine's.
\<close>

datatype js_thrown = ErrorObject js_error | Nullish | OtherValue

definition messageOfNullish :: js_error where
  "messageOfNullish = Error ''Cannot read properties of null''"

definition readMessage :: "js_thrown \<Rightarrow> js_thrown + string option" where
  "readMessage thrown =
     (case thrown of
        ErrorObject e \<Rightarrow> Inr (Some (message e))
      | Nullish \<Rightarrow> Inl (ErrorObject messageOfNullish)
      | OtherValue \<Rightarrow> Inr None)"

text \<open>
  A registered tool: its name and its \<open>execute\<close>, which gets the request, the document
  context, the API client and the configuration, and returns or throws (a rejected
  promise throws at the \<open>await\<close>).
\<close>

record registered_tool =
  tool_name :: string
  execute :: "parsed_request \<Rightarrow> document_context \<Rightarrow> provider \<Rightarrow> agent_config
                \<Rightarrow> js_thrown + tool_output"

text \<open>
  The controller: the tool map, and the three collaborators, each of which may be unset.
  Of the context manager the controller calls \<open>getContext\<close>, of the memory manager
  \<open>storeInteraction\<close>; both may throw.
\<close>

record agent_controller =
  ac_config :: agent_config
  tools :: "string \<rightharpoonup> registered_tool"
  contextManager :: "(document_context \<Rightarrow> js_thrown + document_context) option"
  memoryManager :: "(string \<Rightarrow> tool_output \<Rightarrow> js_thrown + unit) option"
  apiClient :: "provider option"

text \<open>\<open>try { body } catch (error) { handler }\<close>.\<close>

definition tryCatch :: "('e + 'a) \<Rightarrow> ('e \<Rightarrow> 'e + 'a) \<Rightarrow> 'e + 'a" where
  "tryCatch body handler = (case body of Inl e \<Rightarrow> handler e | Inr v \<Rightarrow> Inr v)"

definition getDocumentContext ::
  "agent_controller \<Rightarrow> document_context \<Rightarrow> js_thrown + document_context" where
  "getDocumentContext ac context =
     (case contextManager ac of
        None \<Rightarrow> Inr \<lparr> selection = [], content = [], documentId = [], documentName = [] \<rparr>
      | Some getContext \<Rightarrow> getContext context)"

definition buildGeneralPrompt :: "parsed_request \<Rightarrow> document_context \<Rightarrow> string" where
  "buildGeneralPrompt request context =
     ''You are an AI assistant helping with Google Docs content. ''
     @ (if selection context \<noteq> []
        then ''The user has selected this text: '' @ [CHR 0x22] @ selection context
             @ [CHR 0x22, CHR 0x0A, CHR 0x0A]
        else [])
     @ (if content context \<noteq> [] \<and> content context \<noteq> selection context
        then ''Document context: '' @ take 1000 (content context) @ ''...''
             @ [CHR 0x0A, CHR 0x0A]
        else [])
     @ ''User request: ''
     @ (case originalInput request of
          None \<Rightarrow> parameters request
        | Some input \<Rightarrow> orElse input (parameters request))
     @ [CHR 0x0A, CHR 0x0A]
     @ ''Please provide a helpful response based on the context and request.''"

text \<open>
  The default tool hands the prompt to the provider and lets its error through. The
  provider clients of the repository throw \<open>Error\<close> objects only.
\<close>

definition createDefaultTool :: registered_tool where
  "createDefaultTool =
     \<lparr> tool_name = ''general'',
       execute = (\<lambda>request context generateResponse cfg.
          case generateResponse (buildGeneralPrompt request context) cfg of
            Inl e \<Rightarrow> Inl (ErrorObject e)
          | Inr response \<Rightarrow> Inr (GeneralText response)) \<rparr>"

definition selectTool :: "agent_controller \<Rightarrow> parsed_request \<Rightarrow> registered_tool" where
  "selectTool ac parsedRequest =
     (case tools ac (command parsedRequest) of
        Some t \<Rightarrow> t
      | None \<Rightarrow> (case tools ac ''general'' of Some t \<Rightarrow> t | None \<Rightarrow> createDefaultTool))"

definition executeTool ::
  "agent_controller \<Rightarrow> registered_tool \<Rightarrow> parsed_request \<Rightarrow> document_context
     \<Rightarrow> js_thrown + tool_output" where
  "executeTool ac t request context =
     (case apiClient ac of
        None \<Rightarrow> Inl (ErrorObject (Error ''API client not configured''))
      | Some client \<Rightarrow> execute t request context client (ac_config ac))"

record dispatch_result =
  d_success :: bool
  d_result :: "tool_output option"
  d_tool :: "string option"
  d_error :: "string option"
  d_timestamp :: int

text \<open>The object the \<open>catch\<close> of \<open>processRequest\<close> returns.\<close>

definition dispatchFailure :: "int \<Rightarrow> string option \<Rightarrow> dispatch_result" where
  "dispatchFailure now msg =
     \<lparr> d_success = False, d_result = None, d_tool = None, d_error = msg,
       d_timestamp = now \<rparr>"

text \<open>\<open>processRequest\<close>; \<open>now\<close> is the clock.\<close>

definition processRequest ::
  "agent_controller \<Rightarrow> int \<Rightarrow> string \<Rightarrow> document_context \<Rightarrow> js_thrown + dispatch_result" where
  "processRequest ac now userText context =
     tryCatch
       (let parsedRequest = parseUserInput userText
        in case getDocumentContext ac context of
             Inl e \<Rightarrow> Inl e
           | Inr documentContext \<Rightarrow>
               (let t = selectTool ac parsedRequest
                in case executeTool ac t parsedRequest documentContext of
                     Inl e \<Rightarrow> Inl e
                   | Inr res \<Rightarrow>
                       (case (case memoryManager ac of
                                None \<Rightarrow> Inr ()
                              | Some store \<Rightarrow> store userText res) of
                          Inl e \<Rightarrow> Inl e
                        | Inr u \<Rightarrow>
                            Inr \<lparr> d_success = True, d_result = Some res,
                                  d_tool = Some (tool_name t), d_error = None,
                                  d_timestamp = now \<rparr>)))
       (\<lambda>err. case readMessage err of
                 Inl thrown \<Rightarrow> Inl thrown
               | Inr msg \<Rightarrow> Inr (dispatchFailure now msg))"

subsection \<open>\<open>processAIRequestEnhanced\<close>\<close>





text \<open>
  The three tools of the repository as registered tools: their \<open>execute\<close> has its own
  \<open>try\<close> and \<open>catch\<close> and always returns a result object.
\<close>

definition summarizeTool :: "int \<Rightarrow> registered_tool" where
  "summarizeTool now =
     \<lparr> tool_name = ''summarize'',
       execute = (\<lambda>request context client cfg.
          Inr (SummarizeOutput (fst (SummarizeTool_execute client now request context cfg)))) \<rparr>"

definition rewriteTool :: "int \<Rightarrow> registered_tool" where
  "rewriteTool now =
     \<lparr> tool_name = ''rewrite'',
       execute = (\<lambda>request context client cfg.
          Inr (RewriteOutput (fst (RewriteTool_execute client now request context cfg)))) \<rparr>"

definition explainTool :: "int \<Rightarrow> registered_tool" where
  "explainTool now =
     \<lparr> tool_name = ''explain'',
       execute = (\<lambda>request context client cfg.
          Inr (ExplainOutput (fst (ExplainTool_execute client now request context cfg)))) \<rparr>"

text \<open>
  A controller with the three tools, a context manager that answers with the context it
  is asked about, no memory manager, and the given API client.
\<close>

definition sampleController :: "int \<Rightarrow> provider option \<Rightarrow> agent_controller" where
  "sampleController now client =
     \<lparr> ac_config = agentDefaults,
       tools = [''summarize'' \<mapsto> summarizeTool now, ''rewrite'' \<mapsto> rewriteTool now,
                ''explain'' \<mapsto> explainTool now],
       contextManager = Some Inr,
       memoryManager = None,
       apiClient = client \<rparr>"


section \<open>Facts about the string functions\<close>

lemma startsWith_iff: "startsWith s p \<longleftrightarrow> (\<exists>post. s = p @ post)"
  by (induction s p rule: startsWith.induct) auto

lemma str_includes_iff: "str_includes s w \<longleftrightarrow> occursIn w s"
proof (induction s)
  case Nil
  show ?case by (auto simp: occursIn_def)
next
  case (Cons c cs)
  show ?case
  proof
    assume "str_includes (c # cs) w"
    then consider "startsWith (c # cs) w" | "str_includes cs w" by auto
    then show "occursIn w (c # cs)"
    proof cases
      case 1
      then obtain post where "c # cs = w @ post" by (auto simp: startsWith_iff)
      then have "c # cs = [] @ w @ post" by simp
      then show ?thesis unfolding occursIn_def by blast
    next
      case 2
      then obtain pre post where "cs = pre @ w @ post" using Cons by (auto simp: occursIn_def)
      then have "c # cs = (c # pre) @ w @ post" by simp
      then show ?thesis unfolding occursIn_def by blast
    qed
  next
    assume "occursIn w (c # cs)"
    then obtain pre post where eq: "c # cs = pre @ w @ post" by (auto simp: occursIn_def)
    show "str_includes (c # cs) w"
    proof (cases pre)
      case Nil
      with eq have "startsWith (c # cs) w" by (auto simp: startsWith_iff)
      then show ?thesis by simp
    next
      case (Cons d pre')
      with eq have "cs = pre' @ w @ post" by simp
      then have "occursIn w cs" unfolding occursIn_def by blast
      then show ?thesis using Cons.IH by simp
    qed
  qed
qed

lemma splitOn_not_Nil: "splitOn sep s \<noteq> []"
  by (induction s) (auto split: list.splits)

lemma hd_splitOn: "hd (splitOn sep s) = takeWhile (\<lambda>c. c \<noteq> sep) s"
  by (induction s) (auto split: list.splits simp: splitOn_not_Nil)

lemma join_tl_splitOn:
  "joinWith sep (tl (splitOn sep s)) = drop 1 (dropWhile (\<lambda>c. c \<noteq> sep) s)"
proof (induction s)
  case Nil
  show ?case by simp
next
  case (Cons c cs)
  show ?case
  proof (cases "c = sep")
    case True
    have "joinWith sep (splitOn sep cs) = cs"
    proof (induction cs)
      case Nil
      show ?case by simp
    next
      case (Cons d ds)
      obtain t ts where sp: "splitOn sep ds = t # ts"
        using splitOn_not_Nil [of sep ds] by (cases "splitOn sep ds") auto
      show ?case
      proof (cases "d = sep")
        case True
        then show ?thesis using Cons sp by simp
      next
        case False
        then show ?thesis using Cons sp by (cases ts) auto
      qed
    qed
    with True show ?thesis by simp
  next
    case False
    obtain t ts where sp: "splitOn sep cs = t # ts"
      using splitOn_not_Nil [of sep cs] by (cases "splitOn sep cs") auto
    with False Cons show ?thesis by simp
  qed
qed

lemma toLowerChar_slash: "toLowerChar c = CHR ''/'' \<longleftrightarrow> c = CHR ''/''"
proof
  assume a: "toLowerChar c = CHR ''/''"
  show "c = CHR ''/''"
  proof (rule ccontr)
    assume ne: "c \<noteq> CHR ''/''"
    define n where "n = (of_char c :: nat)"
    have up: "(65 \<le> n \<and> n \<le> 90) \<or> (192 \<le> n \<and> n \<le> 222 \<and> n \<noteq> 215)"
      using a ne unfolding toLowerChar_def n_def Let_def by (auto split: if_splits)
    then have "toLowerChar c = char_of (n + 32)"
      unfolding toLowerChar_def n_def Let_def by simp
    with a have "(of_char (char_of (n + 32) :: char) :: nat) = of_char (CHR ''/'')" by simp
    then have "(n + 32) mod 256 = 47" by simp
    with up show False by auto
  qed
next
  assume "c = CHR ''/''"
  then show "toLowerChar c = CHR ''/''" by (simp add: toLowerChar_def)
qed

lemma startsWith_slash_toLowerCase:
  "startsWith (toLowerCase s) ''/'' \<longleftrightarrow> startsWith s ''/''"
  by (cases s) (auto simp: toLowerCase_def toLowerChar_slash)

section \<open>Classification\<close>

lemma firstEntry_Some:
  "firstEntry hit tbl = Some c \<longleftrightarrow>
     (\<exists>i < length tbl. c = fst (tbl ! i) \<and> hit (snd (tbl ! i)) \<and>
        (\<forall>j < i. \<not> hit (snd (tbl ! j))))"
  (is "_ \<longleftrightarrow> ?first tbl")
proof (induction tbl)
  case Nil
  show ?case by simp
next
  case (Cons e tbl)
  obtain name x where e: "e = (name, x)" by (cases e)
  show ?case
  proof (cases "hit x")
    case True
    show ?thesis
    proof
      assume "firstEntry hit (e # tbl) = Some c"
      with True e have "c = name" by simp
      with True e show "?first (e # tbl)"
        by (intro exI [of _ 0]) simp
    next
      assume "?first (e # tbl)"
      then obtain i where i: "i < length (e # tbl)" "c = fst ((e # tbl) ! i)"
        "\<forall>j < i. \<not> hit (snd ((e # tbl) ! j))" by blast
      have "i = 0"
      proof (rule ccontr)
        assume "i \<noteq> 0"
        then have "0 < i" by simp
        with i(3) have "\<not> hit (snd ((e # tbl) ! 0))" by blast
        with True e show False by simp
      qed
      with i e True show "firstEntry hit (e # tbl) = Some c" by simp
    qed
  next
    case False
    have "firstEntry hit (e # tbl) = firstEntry hit tbl" using False e by simp
    moreover have "?first (e # tbl) \<longleftrightarrow> ?first tbl"
    proof
      assume "?first (e # tbl)"
      then obtain i where i: "i < length (e # tbl)" "c = fst ((e # tbl) ! i)"
        "hit (snd ((e # tbl) ! i))" "\<forall>j < i. \<not> hit (snd ((e # tbl) ! j))" by blast
      from i(3) False e have "i \<noteq> 0" by (cases i) auto
      then obtain k where k: "i = Suc k" by (cases i) auto
      have "\<forall>j < k. \<not> hit (snd (tbl ! j))"
      proof (intro allI impI)
        fix j assume "j < k"
        then have "Suc j < i" using k by simp
        with i(4) have "\<not> hit (snd ((e # tbl) ! Suc j))" by blast
        then show "\<not> hit (snd (tbl ! j))" by simp
      qed
      with i k show "?first tbl" by (intro exI [of _ k]) simp
    next
      assume "?first tbl"
      then obtain i where i: "i < length tbl" "c = fst (tbl ! i)"
        "hit (snd (tbl ! i))" "\<forall>j < i. \<not> hit (snd (tbl ! j))" by blast
      have "\<forall>j < Suc i. \<not> hit (snd ((e # tbl) ! j))"
      proof (intro allI impI)
        fix j assume "j < Suc i"
        show "\<not> hit (snd ((e # tbl) ! j))"
        proof (cases j)
          case 0
          with False e show ?thesis by simp
        next
          case (Suc j')
          with \<open>j < Suc i\<close> i(4) show ?thesis by simp
        qed
      qed
      with i show "?first (e # tbl)" by (intro exI [of _ "Suc i"]) simp
    qed
    ultimately show ?thesis using Cons.IH by simp
  qed
qed

lemma firstEntry_None: "firstEntry hit tbl = None \<longleftrightarrow> (\<forall>e \<in> set tbl. \<not> hit (snd e))"
  by (induction hit tbl rule: firstEntry.induct) auto

lemma firstEntry_firstHitOrDefault:
  "firstHitOrDefault hit tbl dflt (case firstEntry hit tbl of Some c \<Rightarrow> c | None \<Rightarrow> dflt)"
proof (cases "firstEntry hit tbl")
  case None
  then have "\<forall>e \<in> set tbl. \<not> hit (snd e)" by (simp add: firstEntry_None)
  with None show ?thesis by (simp add: firstHitOrDefault_def)
next
  case (Some c)
  then show ?thesis using firstEntry_Some [of hit tbl c] by (simp add: firstHitOrDefault_def)
qed

lemma someIncluded_iff: "someIncluded ws t \<longleftrightarrow> (\<exists>w \<in> set ws. occursIn w t)"
  by (simp add: someIncluded_def list_ex_iff str_includes_iff)

lemma somePatternTests_iff: "somePatternTests ps t \<longleftrightarrow> (\<exists>p \<in> set ps. regexTest p t)"
  by (simp add: somePatternTests_def list_ex_iff)

lemma inferCommand_firstHit:
  "firstHitOrDefault (\<lambda>ws. \<exists>w \<in> set ws. occursIn w t) commandKeywords ''general''
     (inferCommand t)"
  using firstEntry_firstHitOrDefault [of "\<lambda>ws. someIncluded ws t" commandKeywords "''general''"]
  by (simp add: inferCommand_def someIncluded_iff)

lemma parseCommand_firstHit:
  "firstHitOrDefault (\<lambda>ps. \<exists>p \<in> set ps. regexTest p (trim (toLowerCase cmd)))
     commandPatterns ''generate'' (tool (parseCommand cmd))"
proof -
  let ?hit = "\<lambda>ps. somePatternTests ps (trim (toLowerCase cmd))"
  have "tool (parseCommand cmd) =
          (case firstEntry ?hit commandPatterns of Some c \<Rightarrow> c | None \<Rightarrow> ''generate'')"
    by (simp add: parseCommand_def Let_def split: option.splits)
  then show ?thesis
    using firstEntry_firstHitOrDefault [of ?hit commandPatterns "''generate''"]
    by (simp add: somePatternTests_iff)
qed

text \<open>
  C1, as the specification states it, fails: the command is cut at the first SPACE only,
  so a TAB after the token stays inside the command.
\<close>

theorem parseUserInput_tab_counterexample:
  "command (parseUserInput (''/foo'' @ [CHR 0x09] @ ''bar'')) = ''foo'' @ [CHR 0x09] @ ''bar''
   \<and> firstWhitespaceToken (drop 1 (trim (''/foo'' @ [CHR 0x09] @ ''bar''))) = ''foo''"
  by code_simp

text \<open>
  C1, amended: for every input that begins with \<open>/\<close> after trimming, the command is the
  lower-cased text after the prefix up to the first SPACE character, the parameter tail is
  the lower-cased text after that SPACE, and the request is marked explicit; no keyword
  table is consulted.
\<close>

theorem parseUserInput_explicit_command:
  assumes "startsWith (trim input) ''/''"
  shows "command (parseUserInput input) =
           takeWhile (\<lambda>c. c \<noteq> CHR '' '') (drop 1 (toLowerCase (trim input)))
       \<and> parameters (parseUserInput input) =
           drop 1 (dropWhile (\<lambda>c. c \<noteq> CHR '' '') (drop 1 (toLowerCase (trim input))))
       \<and> isExplicitCommand (parseUserInput input)"
proof -
  have "startsWith (toLowerCase (trim input)) ''/''"
    using assms by (simp add: startsWith_slash_toLowerCase)
  then show ?thesis
    by (simp add: parseUserInput_def Let_def hd_splitOn join_tl_splitOn)
qed

theorem parseUserInput_explicit_command_witness:
  "startsWith (trim ''  /Foo bar baz'') ''/''
   \<and> command (parseUserInput ''  /Foo bar baz'') = ''foo''
   \<and> parameters (parseUserInput ''  /Foo bar baz'') = ''bar baz''
   \<and> isExplicitCommand (parseUserInput ''  /Foo bar baz'')"
proof -
  have h: "startsWith (trim ''  /Foo bar baz'') ''/''" by code_simp
  have c: "takeWhile (\<lambda>c. c \<noteq> CHR '' '') (drop 1 (toLowerCase (trim ''  /Foo bar baz''))) = ''foo''"
    by code_simp
  have p: "drop 1 (dropWhile (\<lambda>c. c \<noteq> CHR '' '') (drop 1 (toLowerCase (trim ''  /Foo bar baz''))))
             = ''bar baz''"
    by code_simp
  show ?thesis
    using h parseUserInput_explicit_command [OF h] c p by simp
qed

text \<open>
  C2: for an input that does not begin with the escape prefix, \<open>parseUserInput\<close> returns
  the first command of the keyword table, in its declared order, one of whose keywords
  occurs in the trimmed, lower-cased text, and \<open>general\<close> when no keyword occurs;
  \<open>parseCommand\<close> of the alternative controller does the same with its pattern table
  and the default \<open>generate\<close>. Both are total functions without an error branch: the
  source has no \<open>throw\<close> on these paths.
\<close>

theorem classify_first_table_entry:
  "(\<not> startsWith (trim input) ''/'' \<longrightarrow>
      firstHitOrDefault (\<lambda>ws. \<exists>w \<in> set ws. occursIn w (toLowerCase (trim input)))
        commandKeywords ''general'' (command (parseUserInput input)))
   \<and> firstHitOrDefault (\<lambda>ps. \<exists>p \<in> set ps. regexTest p (trim (toLowerCase cmd)))
        commandPatterns ''generate'' (tool (parseCommand cmd))"
proof (intro conjI impI)
  assume "\<not> startsWith (trim input) ''/''"
  then have "\<not> startsWith (toLowerCase (trim input)) ''/''"
    by (simp add: startsWith_slash_toLowerCase)
  then have "command (parseUserInput input) = inferCommand (toLowerCase (trim input))"
    by (simp add: parseUserInput_def Let_def)
  then show "firstHitOrDefault (\<lambda>ws. \<exists>w \<in> set ws. occursIn w (toLowerCase (trim input)))
        commandKeywords ''general'' (command (parseUserInput input))"
    using inferCommand_firstHit [of "toLowerCase (trim input)"] by simp
next
  show "firstHitOrDefault (\<lambda>ps. \<exists>p \<in> set ps. regexTest p (trim (toLowerCase cmd)))
        commandPatterns ''generate'' (tool (parseCommand cmd))"
    by (rule parseCommand_firstHit)
qed

theorem classify_first_table_entry_witness:
  "\<not> startsWith (trim ''Explain and Summarize this'') ''/''
   \<and> firstHitOrDefault
        (\<lambda>ws. \<exists>w \<in> set ws. occursIn w (toLowerCase (trim ''Explain and Summarize this'')))
        commandKeywords ''general'' ''summarize''
   \<and> firstHitOrDefault
        (\<lambda>ps. \<exists>p \<in> set ps. regexTest p (trim (toLowerCase ''Lorem ipsum'')))
        commandPatterns ''generate'' ''generate''"
proof -
  have h: "\<not> startsWith (trim ''Explain and Summarize this'') ''/''" by code_simp
  have c: "command (parseUserInput ''Explain and Summarize this'') = ''summarize''" by code_simp
  have t: "tool (parseCommand ''Lorem ipsum'') = ''generate''" by code_simp
  show ?thesis
    using h c t
      classify_first_table_entry [of "''Explain and Summarize this''" "''Lorem ipsum''"]
    by simp
qed

section \<open>The extractors are total and idempotent\<close>

lemma firstEntry_in_names: "firstEntry hit tbl = Some c \<Longrightarrow> c \<in> set (map fst tbl)"
  by (induction hit tbl rule: firstEntry.induct) (auto split: if_splits)

lemma RewriteTool_extractStyle_cases:
  "RewriteTool_extractStyle s \<in> {''formal'', ''casual'', ''academic'', ''creative'', ''simple'', ''improve''}"
proof (cases "firstEntry (\<lambda>ws. someIncluded ws s) styles")
  case None
  then show ?thesis by (simp add: RewriteTool_extractStyle_def)
next
  case (Some c)
  from firstEntry_in_names [OF this] have "c \<in> set (map fst styles)" .
  then show ?thesis using Some by (simp add: RewriteTool_extractStyle_def styles_def)
qed

lemma RewriteTool_extractTone_cases:
  "RewriteTool_extractTone s \<in>
     {''professional'', ''friendly'', ''persuasive'', ''authoritative'', ''empathetic'', ''neutral''}"
proof (cases "firstEntry (\<lambda>ws. someIncluded ws s) tones")
  case None
  then show ?thesis by (simp add: RewriteTool_extractTone_def)
next
  case (Some c)
  from firstEntry_in_names [OF this] have "c \<in> set (map fst tones)" .
  then show ?thesis using Some by (simp add: RewriteTool_extractTone_def tones_def)
qed

lemma RewriteTool_extractStyle_idem:
  "RewriteTool_extractStyle (RewriteTool_extractStyle s) = RewriteTool_extractStyle s"
proof -
  have "RewriteTool_extractStyle ''formal'' = ''formal''" by code_simp
  moreover have "RewriteTool_extractStyle ''casual'' = ''casual''" by code_simp
  moreover have "RewriteTool_extractStyle ''academic'' = ''academic''" by code_simp
  moreover have "RewriteTool_extractStyle ''creative'' = ''creative''" by code_simp
  moreover have "RewriteTool_extractStyle ''simple'' = ''simple''" by code_simp
  moreover have "RewriteTool_extractStyle ''improve'' = ''improve''" by code_simp
  ultimately show ?thesis using RewriteTool_extractStyle_cases [of s] by auto
qed

lemma RewriteTool_extractTone_idem:
  "RewriteTool_extractTone (RewriteTool_extractTone s) = RewriteTool_extractTone s"
proof -
  have "RewriteTool_extractTone ''professional'' = ''professional''" by code_simp
  moreover have "RewriteTool_extractTone ''friendly'' = ''friendly''" by code_simp
  moreover have "RewriteTool_extractTone ''persuasive'' = ''persuasive''" by code_simp
  moreover have "RewriteTool_extractTone ''authoritative'' = ''authoritative''" by code_simp
  moreover have "RewriteTool_extractTone ''empathetic'' = ''empathetic''" by code_simp
  moreover have "RewriteTool_extractTone ''neutral'' = ''neutral''" by code_simp
  ultimately show ?thesis using RewriteTool_extractTone_cases [of s] by auto
qed

lemma extractLengthPreference_cases:
  "extractLengthPreference s \<in> {''shorter'', ''longer'', ''same''}"
  by (simp add: extractLengthPreference_def)

lemma extractLengthPreference_idem:
  "extractLengthPreference (extractLengthPreference s) = extractLengthPreference s"
proof -
  have "extractLengthPreference ''shorter'' = ''shorter''" by code_simp
  moreover have "extractLengthPreference ''longer'' = ''longer''" by code_simp
  moreover have "extractLengthPreference ''same'' = ''same''" by code_simp
  ultimately show ?thesis using extractLengthPreference_cases [of s] by auto
qed

lemma SummarizeTool_extractStyle_cases:
  "SummarizeTool_extractStyle s \<in> {''bullet-points'', ''detailed'', ''concise''}"
  by (simp add: SummarizeTool_extractStyle_def Let_def)

lemma SummarizeTool_extractStyle_idem:
  "SummarizeTool_extractStyle (SummarizeTool_extractStyle s) = SummarizeTool_extractStyle s"
proof -
  have "SummarizeTool_extractStyle ''bullet-points'' = ''bullet-points''" by code_simp
  moreover have "SummarizeTool_extractStyle ''detailed'' = ''detailed''" by code_simp
  moreover have "SummarizeTool_extractStyle ''concise'' = ''concise''" by code_simp
  ultimately show ?thesis using SummarizeTool_extractStyle_cases [of s] by auto
qed

lemma extractLength_cases: "extractLength s \<in> {''short'', ''long'', ''medium''}"
  by (simp add: extractLength_def Let_def)

lemma extractLength_idem: "extractLength (extractLength s) = extractLength s"
proof -
  have "extractLength ''short'' = ''short''" by code_simp
  moreover have "extractLength ''long'' = ''long''" by code_simp
  moreover have "extractLength ''medium'' = ''medium''" by code_simp
  ultimately show ?thesis using extractLength_cases [of s] by auto
qed

lemma table_default:
  "\<forall>e \<in> set tbl. \<forall>w \<in> set (snd e). \<not> occursIn w s \<Longrightarrow>
     firstEntry (\<lambda>ws. someIncluded ws s) tbl = None"
  by (simp add: firstEntry_None someIncluded_iff)

lemma firstIncludedKey_in_values:
  "firstIncludedKey tbl s = Some v \<Longrightarrow> v \<in> set (map snd tbl)"
  by (induction tbl s rule: firstIncludedKey.induct) (auto split: if_splits)

lemma firstIncludedKey_None:
  "firstIncludedKey tbl s = None \<longleftrightarrow> (\<forall>e \<in> set tbl. \<not> str_includes s (fst e))"
  by (induction tbl s rule: firstIncludedKey.induct) auto

lemma extractTargetLanguage_cases:
  "extractTargetLanguage s \<in> {''Spanish'', ''French'', ''German'', ''Italian'', ''Portuguese'',
     ''Chinese'', ''Japanese'', ''Korean'', ''Russian'', ''Arabic'', ''English''}"
proof (cases "firstIncludedKey languages (toLowerCase s)")
  case None
  then show ?thesis by (simp add: extractTargetLanguage_def)
next
  case (Some v)
  from firstIncludedKey_in_values [OF this] have "v \<in> set (map snd languages)" .
  then have "v \<in> {''Spanish'', ''French'', ''German'', ''Italian'', ''Portuguese'',
     ''Chinese'', ''Japanese'', ''Korean'', ''Russian'', ''Arabic'', ''English''}"
    by (auto simp: languages_def)
  moreover have "extractTargetLanguage s = v" using Some by (simp add: extractTargetLanguage_def)
  ultimately show ?thesis by (simp only:)
qed

lemma extractTargetLanguage_idem:
  "extractTargetLanguage (extractTargetLanguage s) = extractTargetLanguage s"
proof -
  have "extractTargetLanguage ''Spanish'' = ''Spanish''" by code_simp
  moreover have "extractTargetLanguage ''French'' = ''French''" by code_simp
  moreover have "extractTargetLanguage ''German'' = ''German''" by code_simp
  moreover have "extractTargetLanguage ''Italian'' = ''Italian''" by code_simp
  moreover have "extractTargetLanguage ''Portuguese'' = ''Portuguese''" by code_simp
  moreover have "extractTargetLanguage ''Chinese'' = ''Chinese''" by code_simp
  moreover have "extractTargetLanguage ''Japanese'' = ''Japanese''" by code_simp
  moreover have "extractTargetLanguage ''Korean'' = ''Korean''" by code_simp
  moreover have "extractTargetLanguage ''Russian'' = ''Russian''" by code_simp
  moreover have "extractTargetLanguage ''Arabic'' = ''Arabic''" by code_simp
  moreover have "extractTargetLanguage ''English'' = ''English''" by code_simp
  ultimately show ?thesis using extractTargetLanguage_cases [of s] by auto
qed

lemma extractFormatType_cases:
  "extractFormatType s \<in> {''bullet points'', ''a table'', ''an outline'', ''paragraphs'',
     ''a well-structured format''}"
  by (simp add: extractFormatType_def Let_def)

lemma extractFormatType_idem:
  "extractFormatType (extractFormatType s) = extractFormatType s"
proof -
  have "extractFormatType ''bullet points'' = ''bullet points''" by code_simp
  moreover have "extractFormatType ''a table'' = ''a table''" by code_simp
  moreover have "extractFormatType ''an outline'' = ''an outline''" by code_simp
  moreover have "extractFormatType ''paragraphs'' = ''paragraphs''" by code_simp
  moreover have "extractFormatType ''a well-structured format'' = ''a well-structured format''"
    by code_simp
  ultimately show ?thesis using extractFormatType_cases [of s] by auto
qed


text \<open>
  C4: each extractor returns, for every string, a value of its documented enumeration,
  returns the documented default when its input contains no keyword of any category, and
  maps its own output to itself. (The extractors of RewriteTool receive the lower-cased
  request; those of SummarizeTool and of the integration file lower-case their argument
  themselves.)
\<close>

theorem extractors_total_idempotent:
  "(RewriteTool_extractStyle s \<in> set (map fst styleDescriptions)
      \<and> RewriteTool_extractStyle (RewriteTool_extractStyle s) = RewriteTool_extractStyle s
      \<and> ((\<forall>e \<in> set styles. \<forall>w \<in> set (snd e). \<not> str_includes s w) \<longrightarrow>
            RewriteTool_extractStyle s = ''improve''))
   \<and> (RewriteTool_extractTone s \<in> set (map fst toneDescriptions)
      \<and> RewriteTool_extractTone (RewriteTool_extractTone s) = RewriteTool_extractTone s
      \<and> ((\<forall>e \<in> set tones. \<forall>w \<in> set (snd e). \<not> str_includes s w) \<longrightarrow>
            RewriteTool_extractTone s = ''neutral''))
   \<and> (extractLengthPreference s \<in> set (map fst lengthDescriptions)
      \<and> extractLengthPreference (extractLengthPreference s) = extractLengthPreference s
      \<and> ((\<forall>w \<in> {''shorter'', ''concise'', ''brief'', ''longer'', ''expand'', ''elaborate''}.
             \<not> str_includes s w) \<longrightarrow> extractLengthPreference s = ''same''))
   \<and> (SummarizeTool_extractStyle s \<in> set summaryStyles
      \<and> SummarizeTool_extractStyle (SummarizeTool_extractStyle s) = SummarizeTool_extractStyle s
      \<and> ((\<forall>w \<in> {''bullet'', ''points'', ''list'', ''detailed'', ''comprehensive'', ''thorough''}.
             \<not> str_includes (toLowerCase s) w) \<longrightarrow> SummarizeTool_extractStyle s = ''concise''))
   \<and> (extractLength s \<in> set summaryLengths
      \<and> extractLength (extractLength s) = extractLength s
      \<and> ((\<forall>w \<in> {''short'', ''brief'', ''quick'', ''long'', ''detailed'', ''extensive''}.
             \<not> str_includes (toLowerCase s) w) \<longrightarrow> extractLength s = ''medium''))
   \<and> (extractTargetLanguage s \<in> set targetLanguages
      \<and> extractTargetLanguage (extractTargetLanguage s) = extractTargetLanguage s
      \<and> ((\<forall>e \<in> set languages. \<not> str_includes (toLowerCase s) (fst e)) \<longrightarrow>
            extractTargetLanguage s = ''English''))
   \<and> (extractFormatType s \<in> set formatTypes
      \<and> extractFormatType (extractFormatType s) = extractFormatType s
      \<and> ((\<forall>w \<in> {''bullet'', ''list'', ''table'', ''outline'', ''paragraph''}.
             \<not> str_includes (toLowerCase s) w) \<longrightarrow>
            extractFormatType s = ''a well-structured format''))"
proof -
  have style: "RewriteTool_extractStyle s \<in> set (map fst styleDescriptions)"
    using RewriteTool_extractStyle_cases [of s] by (simp add: styleDescriptions_def)
  have style_dflt: "(\<forall>e \<in> set styles. \<forall>w \<in> set (snd e). \<not> str_includes s w) \<longrightarrow>
      RewriteTool_extractStyle s = ''improve''"
    using table_default [of styles s]
    by (simp add: RewriteTool_extractStyle_def str_includes_iff)
  have tone: "RewriteTool_extractTone s \<in> set (map fst toneDescriptions)"
    using RewriteTool_extractTone_cases [of s] by (simp add: toneDescriptions_def)
  have tone_dflt: "(\<forall>e \<in> set tones. \<forall>w \<in> set (snd e). \<not> str_includes s w) \<longrightarrow>
      RewriteTool_extractTone s = ''neutral''"
    using table_default [of tones s]
    by (simp add: RewriteTool_extractTone_def str_includes_iff)
  have len: "extractLengthPreference s \<in> set (map fst lengthDescriptions)"
    using extractLengthPreference_cases [of s] by (simp add: lengthDescriptions_def)
  have len_dflt: "(\<forall>w \<in> {''shorter'', ''concise'', ''brief'', ''longer'', ''expand'', ''elaborate''}.
      \<not> str_includes s w) \<longrightarrow> extractLengthPreference s = ''same''"
    by (simp add: extractLengthPreference_def)
  have sstyle: "SummarizeTool_extractStyle s \<in> set summaryStyles"
    using SummarizeTool_extractStyle_cases [of s] by (auto simp: summaryStyles_def)
  have sstyle_dflt: "(\<forall>w \<in> {''bullet'', ''points'', ''list'', ''detailed'', ''comprehensive'', ''thorough''}.
      \<not> str_includes (toLowerCase s) w) \<longrightarrow> SummarizeTool_extractStyle s = ''concise''"
    by (simp add: SummarizeTool_extractStyle_def Let_def)
  have slen: "extractLength s \<in> set summaryLengths"
    using extractLength_cases [of s] by (auto simp: summaryLengths_def)
  have slen_dflt: "(\<forall>w \<in> {''short'', ''brief'', ''quick'', ''long'', ''detailed'', ''extensive''}.
      \<not> str_includes (toLowerCase s) w) \<longrightarrow> extractLength s = ''medium''"
    by (simp add: extractLength_def Let_def)
  have lang: "extractTargetLanguage s \<in> set targetLanguages"
    using extractTargetLanguage_cases [of s] by (auto simp: targetLanguages_def languages_def)
  have lang_dflt: "(\<forall>e \<in> set languages. \<not> str_includes (toLowerCase s) (fst e)) \<longrightarrow>
      extractTargetLanguage s = ''English''"
  proof
    assume "\<forall>e \<in> set languages. \<not> str_includes (toLowerCase s) (fst e)"
    then have "firstIncludedKey languages (toLowerCase s) = None"
      by (simp only: firstIncludedKey_None)
    then show "extractTargetLanguage s = ''English''"
      by (simp add: extractTargetLanguage_def)
  qed
  have fmt: "extractFormatType s \<in> set formatTypes"
    using extractFormatType_cases [of s] by (auto simp: formatTypes_def)
  have fmt_dflt: "(\<forall>w \<in> {''bullet'', ''list'', ''table'', ''outline'', ''paragraph''}.
      \<not> str_includes (toLowerCase s) w) \<longrightarrow> extractFormatType s = ''a well-structured format''"
    by (simp add: extractFormatType_def Let_def)
  have rewrite: "(RewriteTool_extractStyle s \<in> set (map fst styleDescriptions)
      \<and> RewriteTool_extractStyle (RewriteTool_extractStyle s) = RewriteTool_extractStyle s
      \<and> ((\<forall>e \<in> set styles. \<forall>w \<in> set (snd e). \<not> str_includes s w) \<longrightarrow>
            RewriteTool_extractStyle s = ''improve''))
   \<and> (RewriteTool_extractTone s \<in> set (map fst toneDescriptions)
      \<and> RewriteTool_extractTone (RewriteTool_extractTone s) = RewriteTool_extractTone s
      \<and> ((\<forall>e \<in> set tones. \<forall>w \<in> set (snd e). \<not> str_includes s w) \<longrightarrow>
            RewriteTool_extractTone s = ''neutral''))
   \<and> (extractLengthPreference s \<in> set (map fst lengthDescriptions)
      \<and> extractLengthPreference (extractLengthPreference s) = extractLengthPreference s
      \<and> ((\<forall>w \<in> {''shorter'', ''concise'', ''brief'', ''longer'', ''expand'', ''elaborate''}.
             \<not> str_includes s w) \<longrightarrow> extractLengthPreference s = ''same''))"
    using style style_dflt tone tone_dflt len len_dflt
      RewriteTool_extractStyle_idem [of s] RewriteTool_extractTone_idem [of s]
      extractLengthPreference_idem [of s]
    by (intro conjI)
  have summarize: "(SummarizeTool_extractStyle s \<in> set summaryStyles
      \<and> SummarizeTool_extractStyle (SummarizeTool_extractStyle s) = SummarizeTool_extractStyle s
      \<and> ((\<forall>w \<in> {''bullet'', ''points'', ''list'', ''detailed'', ''comprehensive'', ''thorough''}.
             \<not> str_includes (toLowerCase s) w) \<longrightarrow> SummarizeTool_extractStyle s = ''concise''))
   \<and> (extractLength s \<in> set summaryLengths
      \<and> extractLength (extractLength s) = extractLength s
      \<and> ((\<forall>w \<in> {''short'', ''brief'', ''quick'', ''long'', ''detailed'', ''extensive''}.
             \<not> str_includes (toLowerCase s) w) \<longrightarrow> extractLength s = ''medium''))"
    using sstyle sstyle_dflt slen slen_dflt
      SummarizeTool_extractStyle_idem [of s] extractLength_idem [of s]
    by (intro conjI)
  have integration: "(extractTargetLanguage s \<in> set targetLanguages
      \<and> extractTargetLanguage (extractTargetLanguage s) = extractTargetLanguage s
      \<and> ((\<forall>e \<in> set languages. \<not> str_includes (toLowerCase s) (fst e)) \<longrightarrow>
            extractTargetLanguage s = ''English''))
   \<and> (extractFormatType s \<in> set formatTypes
      \<and> extractFormatType (extractFormatType s) = extractFormatType s
      \<and> ((\<forall>w \<in> {''bullet'', ''list'', ''table'', ''outline'', ''paragraph''}.
             \<not> str_includes (toLowerCase s) w) \<longrightarrow>
            extractFormatType s = ''a well-structured format''))"
    using lang lang_dflt fmt fmt_dflt
      extractTargetLanguage_idem [of s] extractFormatType_idem [of s]
    by (intro conjI)
  show ?thesis using rewrite summarize integration by blast
qed

theorem extractors_total_idempotent_witness:
  "RewriteTool_extractStyle ''hello world'' = ''improve''
   \<and> RewriteTool_extractTone ''hello world'' = ''neutral''
   \<and> extractLengthPreference ''hello world'' = ''same''
   \<and> SummarizeTool_extractStyle ''hello world'' = ''concise''
   \<and> extractLength ''hello world'' = ''medium''
   \<and> extractTargetLanguage ''hello world'' = ''English''
   \<and> extractFormatType ''hello world'' = ''a well-structured format''
   \<and> RewriteTool_extractStyle ''hello world'' \<in> set (map fst styleDescriptions)"
proof -
  have h1: "\<forall>e \<in> set styles. \<forall>w \<in> set (snd e). \<not> str_includes ''hello world'' w"
    by code_simp
  have h2: "\<forall>e \<in> set tones. \<forall>w \<in> set (snd e). \<not> str_includes ''hello world'' w"
    by code_simp
  have h3: "\<forall>w \<in> {''shorter'', ''concise'', ''brief'', ''longer'', ''expand'', ''elaborate''}.
      \<not> str_includes ''hello world'' w"
    by code_simp
  have h4: "\<forall>w \<in> {''bullet'', ''points'', ''list'', ''detailed'', ''comprehensive'', ''thorough''}.
      \<not> str_includes (toLowerCase ''hello world'') w"
    by code_simp
  have h5: "\<forall>w \<in> {''short'', ''brief'', ''quick'', ''long'', ''detailed'', ''extensive''}.
      \<not> str_includes (toLowerCase ''hello world'') w"
    by code_simp
  have h6: "\<forall>e \<in> set languages. \<not> str_includes (toLowerCase ''hello world'') (fst e)"
    by code_simp
  have h7: "\<forall>w \<in> {''bullet'', ''list'', ''table'', ''outline'', ''paragraph''}.
      \<not> str_includes (toLowerCase ''hello world'') w"
    by code_simp
  show ?thesis
    using h1 h2 h3 h4 h5 h6 h7 extractors_total_idempotent [of "''hello world''"] by blast
qed

section \<open>Truncation\<close>

lemma truncatePrompt_unchanged:
  "int (length p) \<le> 4 * (L - numOr (o_maxTokens opts) (maxTokens cfg) - numOr (o_reservedTokens opts) 500)
   \<Longrightarrow> truncatePrompt L cfg p opts = p"
  by (simp add: truncatePrompt_def Let_def mult.commute)

lemma truncatePrompt_cut:
  assumes "int (length p) > 4 * (L - numOr (o_maxTokens opts) (maxTokens cfg) - numOr (o_reservedTokens opts) 500)"
  shows "truncatePrompt L cfg p opts =
      take (nat (4 * (L - numOr (o_maxTokens opts) (maxTokens cfg) - numOr (o_reservedTokens opts) 500))) p @ ''...''"
  using assms by (simp add: truncatePrompt_def Let_def mult.commute substring0_def)

lemma estimate_cut:
  assumes "0 \<le> B" "int (length p) > 4 * B"
  shows "estimateTokenCount (take (nat (4 * B)) p @ ''...'') = B + 1"
proof -
  have "length (take (nat (4 * B)) p) = nat (4 * B)" using assms by simp
  then have "int (length (take (nat (4 * B)) p @ ''...'')) = 4 * B + 3" using assms by simp
  then show ?thesis unfolding estimateTokenCount_def by simp
qed

lemma truncatePrompt_idem:
  "truncatePrompt L cfg (truncatePrompt L cfg p opts) opts = truncatePrompt L cfg p opts"
proof -
  define B where "B = L - numOr (o_maxTokens opts) (maxTokens cfg) - numOr (o_reservedTokens opts) 500"
  show ?thesis
  proof (cases "int (length p) \<le> 4 * B")
    case True
    then show ?thesis using truncatePrompt_unchanged [of p L opts cfg] by (simp add: B_def)
  next
    case False
    then have cut: "truncatePrompt L cfg p opts = take (nat (4 * B)) p @ ''...''"
      using truncatePrompt_cut [of L opts cfg p] by (simp add: B_def)
    have len: "int (length (take (nat (4 * B)) p @ ''...'')) > 4 * B"
      using False by (cases "0 \<le> B") auto
    have "truncatePrompt L cfg (take (nat (4 * B)) p @ ''...'') opts =
        take (nat (4 * B)) (take (nat (4 * B)) p @ ''...'') @ ''...''"
      using truncatePrompt_cut [of L opts cfg "take (nat (4 * B)) p @ ''...''"] len
      by (simp add: B_def)
    moreover have "take (nat (4 * B)) (take (nat (4 * B)) p @ ''...'') = take (nat (4 * B)) p"
      using False by (cases "0 \<le> B") auto
    ultimately show ?thesis using cut by simp
  qed
qed

lemma truncateToTokenLimit_unchanged:
  "estimateTokenCount t \<le> numOr mt (maxTokens cfg) \<Longrightarrow> truncateToTokenLimit cfg t mt = t"
  by (auto simp: truncateToTokenLimit_def exceedsTokenLimit_def Let_def numOr_def split: option.splits)

lemma truncateToTokenLimit_cut:
  "estimateTokenCount t > numOr mt (maxTokens cfg) \<Longrightarrow>
   truncateToTokenLimit cfg t mt = take (nat (4 * numOr mt (maxTokens cfg) - 100)) t @ ''... [truncated]''"
  by (auto simp: truncateToTokenLimit_def exceedsTokenLimit_def Let_def numOr_def substring0_def mult.commute split: option.splits)

lemma estimate_cut_marker:
  assumes "5 \<le> l" "estimateTokenCount t > l"
  shows "estimateTokenCount (take (nat (4 * l - 100)) t @ ''... [truncated]'') < l"
proof -
  have "int (length t) > 4 * l - 100" using assms unfolding estimateTokenCount_def by linarith
  then have "int (length (take (nat (4 * l - 100)) t)) = max 0 (4 * l - 100)" by auto
  then have "int (length (take (nat (4 * l - 100)) t @ ''... [truncated]'')) = max 0 (4 * l - 100) + 15"
    by simp
  then show ?thesis using assms(1) unfolding estimateTokenCount_def by (simp add: max_def split: if_splits)
qed

lemma truncateToTokenLimit_idem:
  "truncateToTokenLimit cfg (truncateToTokenLimit cfg t mt) mt = truncateToTokenLimit cfg t mt"
proof -
  define l where "l = numOr mt (maxTokens cfg)"
  show ?thesis
  proof (cases "estimateTokenCount t \<le> l")
    case True
    then show ?thesis using truncateToTokenLimit_unchanged [of t mt cfg] by (simp add: l_def)
  next
    case False
    then have cut: "truncateToTokenLimit cfg t mt = take (nat (4 * l - 100)) t @ ''... [truncated]''"
      using truncateToTokenLimit_cut [of mt cfg t] by (simp add: l_def)
    have lt: "int (length t) > 4 * l - 100" using False unfolding estimateTokenCount_def by linarith
    show ?thesis
    proof (cases "25 \<le> l")
      case True
      then have "estimateTokenCount (take (nat (4 * l - 100)) t @ ''... [truncated]'') < l"
        using estimate_cut_marker [of l t] False by simp
      then show ?thesis using cut truncateToTokenLimit_unchanged [of "take (nat (4 * l - 100)) t @ ''... [truncated]''" mt cfg]
        by (simp add: l_def)
    next
      case small: False
      then have e: "take (nat (4 * l - 100)) t = []" by simp
      with cut have c2: "truncateToTokenLimit cfg t mt = ''... [truncated]''" by simp
      show ?thesis
      proof (cases "estimateTokenCount ''... [truncated]'' \<le> l")
        case True
        then show ?thesis using c2 truncateToTokenLimit_unchanged [of "''... [truncated]''" mt cfg] by (simp add: l_def)
      next
        case False
        then have "truncateToTokenLimit cfg ''... [truncated]'' mt = take (nat (4 * l - 100)) ''... [truncated]'' @ ''... [truncated]''"
          using truncateToTokenLimit_cut [of mt cfg "''... [truncated]''"] by (simp add: l_def)
        moreover have "take (nat (4 * l - 100)) ''... [truncated]'' = []" using small by simp
        ultimately show ?thesis using c2 by simp
      qed
    qed
  qed
qed

text \<open>
  C5, as the specification states it, fails: with the configuration the OpenAI constructor
  builds by default (gpt-4, 4000 response tokens) a prompt of 15000 characters keeps the
  request within the context limit of 8192 tokens, and \<open>truncatePrompt\<close> still cuts it,
  to the 14768 characters of its input budget and the marker.
\<close>

theorem truncatePrompt_under_ceiling_counterexample:
  "OpenAIClient_isWithinTokenLimits (OpenAIClient_defaults ''sk-test'')
      (replicate 15000 (CHR ''a'')) noOptions
   \<and> OpenAIClient_truncatePrompt (OpenAIClient_defaults ''sk-test'')
      (replicate 15000 (CHR ''a'')) noOptions = replicate 14768 (CHR ''a'') @ ''...''
   \<and> OpenAIClient_truncatePrompt (OpenAIClient_defaults ''sk-test'')
      (replicate 15000 (CHR ''a'')) noOptions \<noteq> replicate 15000 (CHR ''a'')"
proof -
  have g: "str_includes ''gpt-4'' ''gpt-4''" by simp
  have w: "OpenAIClient_isWithinTokenLimits (OpenAIClient_defaults ''sk-test'')
      (replicate 15000 (CHR ''a'')) noOptions"
    by (simp add: OpenAIClient_isWithinTokenLimits_def isWithinTokenLimits_def
        OpenAIClient_contextLimit_def OpenAIClient_defaults_def noOptions_def numOr_def
        estimateTokenCount_def Let_def g)
  have c: "OpenAIClient_truncatePrompt (OpenAIClient_defaults ''sk-test'')
      (replicate 15000 (CHR ''a'')) noOptions = replicate 14768 (CHR ''a'') @ ''...''"
    by (simp add: OpenAIClient_truncatePrompt_def truncatePrompt_def
        OpenAIClient_contextLimit_def OpenAIClient_defaults_def noOptions_def numOr_def
        substring0_def Let_def g)
  have "length (replicate 14768 (CHR ''a'') @ ''...'') \<noteq> length (replicate 15000 (CHR ''a''))"
    by simp
  then have "replicate 14768 (CHR ''a'') @ ''...'' \<noteq> replicate 15000 (CHR ''a'')"
    by metis
  with w c show ?thesis by simp
qed

text \<open>
  C5, amended. \<open>truncatePrompt\<close> (both clients; \<open>L\<close> is the context limit) leaves a
  prompt unchanged when its length is at most the input budget of
  \<open>4 * (L - maxTokens - reservedTokens)\<close> characters, a threshold below the context
  limit; with a budget that is not negative, a longer prompt becomes its first
  \<open>4 * budget\<close> characters followed by one marker \<open>...\<close>, and then the request is
  within the context limit when at least one token is reserved. \<open>truncateToTokenLimit\<close> leaves a text
  unchanged when its estimate is at most the limit; otherwise the result is the first
  \<open>4 * limit - 100\<close> characters followed by one marker \<open>... [truncated]\<close>, with an
  estimate strictly below the limit when the limit is at least 5. Both functions are
  idempotent.
\<close>

theorem truncation_budget_and_marker:
  "(let B = L - numOr (o_maxTokens opts) (maxTokens cfg) - numOr (o_reservedTokens opts) 500
    in (int (length p) \<le> 4 * B \<longrightarrow> truncatePrompt L cfg p opts = p)
     \<and> (4 * B < int (length p) \<and> 0 \<le> B \<longrightarrow>
          truncatePrompt L cfg p opts = take (nat (4 * B)) p @ ''...'')
     \<and> (4 * B < int (length p) \<and> 0 \<le> B \<and> 1 \<le> numOr (o_reservedTokens opts) 500 \<longrightarrow>
          isWithinTokenLimits L cfg (truncatePrompt L cfg p opts) opts)
     \<and> truncatePrompt L cfg (truncatePrompt L cfg p opts) opts = truncatePrompt L cfg p opts)
   \<and> (let l = numOr mt (maxTokens cfg)
      in (estimateTokenCount t \<le> l \<longrightarrow> truncateToTokenLimit cfg t mt = t)
       \<and> (l < estimateTokenCount t \<longrightarrow>
            truncateToTokenLimit cfg t mt = take (nat (4 * l - 100)) t @ ''... [truncated]'')
       \<and> (l < estimateTokenCount t \<and> 5 \<le> l \<longrightarrow>
            estimateTokenCount (truncateToTokenLimit cfg t mt) < l)
       \<and> truncateToTokenLimit cfg (truncateToTokenLimit cfg t mt) mt
            = truncateToTokenLimit cfg t mt)"
proof -
  define B where
    "B = L - numOr (o_maxTokens opts) (maxTokens cfg) - numOr (o_reservedTokens opts) 500"
  define l where "l = numOr mt (maxTokens cfg)"
  have p1: "int (length p) \<le> 4 * B \<longrightarrow> truncatePrompt L cfg p opts = p"
    using truncatePrompt_unchanged [of p L opts cfg] by (simp add: B_def)
  have p2: "4 * B < int (length p) \<and> 0 \<le> B \<longrightarrow>
      truncatePrompt L cfg p opts = take (nat (4 * B)) p @ ''...''"
    using truncatePrompt_cut [of L opts cfg p] by (simp add: B_def)
  have p3: "4 * B < int (length p) \<and> 0 \<le> B \<and> 1 \<le> numOr (o_reservedTokens opts) 500 \<longrightarrow>
      isWithinTokenLimits L cfg (truncatePrompt L cfg p opts) opts"
  proof (intro impI, elim conjE)
    assume a: "4 * B < int (length p)" "0 \<le> B" "1 \<le> numOr (o_reservedTokens opts) 500"
    then have "estimateTokenCount (truncatePrompt L cfg p opts) = B + 1"
      using p2 estimate_cut [of B p] by simp
    then show "isWithinTokenLimits L cfg (truncatePrompt L cfg p opts) opts"
      using a(3) by (simp add: isWithinTokenLimits_def Let_def B_def)
  qed
  have t1: "estimateTokenCount t \<le> l \<longrightarrow> truncateToTokenLimit cfg t mt = t"
    using truncateToTokenLimit_unchanged [of t mt cfg] by (simp add: l_def)
  have t2: "l < estimateTokenCount t \<longrightarrow>
      truncateToTokenLimit cfg t mt = take (nat (4 * l - 100)) t @ ''... [truncated]''"
    using truncateToTokenLimit_cut [of mt cfg t] by (simp add: l_def)
  have t3: "l < estimateTokenCount t \<and> 5 \<le> l \<longrightarrow>
      estimateTokenCount (truncateToTokenLimit cfg t mt) < l"
    using t2 estimate_cut_marker [of l t] by simp
  show ?thesis
    unfolding Let_def
    using p1 p2 p3 t1 t2 t3 truncatePrompt_idem [of L cfg p opts]
      truncateToTokenLimit_idem [of cfg t mt]
    unfolding B_def l_def by blast
qed

theorem truncation_budget_and_marker_witness:
  "truncatePrompt 8192 (OpenAIClient_defaults ''sk-test'') ''Hi'' noOptions = ''Hi''
   \<and> isWithinTokenLimits 8192 (OpenAIClient_defaults ''sk-test'')
       (truncatePrompt 8192 (OpenAIClient_defaults ''sk-test'') (replicate 15000 (CHR ''a''))
          noOptions) noOptions
   \<and> truncateToTokenLimit (OpenAIClient_defaults ''sk-test'') ''abc'' (Some 5) = ''abc''
   \<and> estimateTokenCount
       (truncateToTokenLimit (OpenAIClient_defaults ''sk-test'') (replicate 40 (CHR ''a''))
          (Some 5)) < 5"
proof -
  let ?D = "OpenAIClient_defaults ''sk-test''"
  have b: "8192 - numOr (o_maxTokens noOptions) (maxTokens ?D)
             - numOr (o_reservedTokens noOptions) 500 = 3692"
    by (simp add: numOr_def noOptions_def OpenAIClient_defaults_def)
  have r: "1 \<le> numOr (o_reservedTokens noOptions) 500" by (simp add: numOr_def noOptions_def)
  have l: "numOr (Some 5) (maxTokens ?D) = 5" by (simp add: numOr_def)
  have e1: "estimateTokenCount ''abc'' = 1" by (simp add: estimateTokenCount_def)
  have e2: "estimateTokenCount (replicate 40 (CHR ''a'')) = 10"
    by (simp add: estimateTokenCount_def)
  note A = truncation_budget_and_marker
      [where p = "''Hi''" and L = 8192 and opts = noOptions and cfg = ?D and mt = "Some 5"
         and t = "''abc''", unfolded Let_def b l]
  note B = truncation_budget_and_marker
      [where p = "replicate 15000 (CHR ''a'')" and L = 8192 and opts = noOptions
         and cfg = ?D and mt = "Some 5" and t = "replicate 40 (CHR ''a'')",
       unfolded Let_def b l]
  have h1: "int (length ''Hi'') \<le> 4 * 3692" by simp
  have h2: "estimateTokenCount ''abc'' \<le> 5" using e1 by simp
  have h3: "4 * 3692 < int (length (replicate 15000 (CHR ''a'')))" by simp
  have h4: "(0::int) \<le> 3692" by simp
  have h5: "5 < estimateTokenCount (replicate 40 (CHR ''a''))" using e2 by simp
  have h6: "(5::int) \<le> 5" by simp
  have short: "truncatePrompt 8192 ?D ''Hi'' noOptions = ''Hi''"
    using A h1 by blast
  have tshort: "truncateToTokenLimit ?D ''abc'' (Some 5) = ''abc''"
    using A h2 by blast
  have long: "isWithinTokenLimits 8192 ?D
       (truncatePrompt 8192 ?D (replicate 15000 (CHR ''a'')) noOptions) noOptions"
    using B h3 h4 r by blast
  have tlong: "estimateTokenCount
       (truncateToTokenLimit ?D (replicate 40 (CHR ''a'')) (Some 5)) < 5"
    using B h5 h6 by blast
  show ?thesis using short tshort long tlong by simp
qed

section \<open>The interaction log stays bounded\<close>

lemma trimHistory_config [simp]: "config (trimHistory now m) = config m"
  by (simp add: trimHistory_def Let_def)




lemma storeInteraction_config [simp]: "config (snd (storeInteraction m c)) = config m"
  by (simp add: storeInteraction_def Let_def)


















section \<open>Configuration updates and the API key\<close>

text \<open>
  C10: \<open>updateConfig\<close> stores the merged configuration before it validates. When the
  merged key is empty (either client) or lacks the prefix \<open>sk-\<close> (OpenAI), the call
  throws and the stored configuration is the merged one; if the configuration was valid
  before, it has therefore changed.
\<close>

theorem updateConfig_stores_before_validating:
  "(apiKey (mergeConfig cfg new) = [] \<longrightarrow>
      OpenAIClient_updateConfig cfg new
        = (mergeConfig cfg new, Inl (Error ''OpenAI API key is required'')))
   \<and> (apiKey (mergeConfig cfg new) \<noteq> [] \<and> \<not> startsWith (apiKey (mergeConfig cfg new)) ''sk-'' \<longrightarrow>
      OpenAIClient_updateConfig cfg new
        = (mergeConfig cfg new, Inl (Error ''Invalid OpenAI API key format'')))
   \<and> (apiKey (mergeConfig cfg new) = [] \<longrightarrow>
      GeminiClient_updateConfig cfg new
        = (mergeConfig cfg new, Inl (Error ''Gemini API key is required'')))
   \<and> (OpenAIClient_validateConfig cfg = Inr ()
        \<and> snd (OpenAIClient_updateConfig cfg new) \<noteq> Inr () \<longrightarrow>
      fst (OpenAIClient_updateConfig cfg new) \<noteq> cfg)
   \<and> (GeminiClient_validateConfig cfg = Inr ()
        \<and> snd (GeminiClient_updateConfig cfg new) \<noteq> Inr () \<longrightarrow>
      fst (GeminiClient_updateConfig cfg new) \<noteq> cfg)"
proof -
  have o: "OpenAIClient_validateConfig cfg = Inr ()
        \<and> snd (OpenAIClient_updateConfig cfg new) \<noteq> Inr () \<longrightarrow>
      fst (OpenAIClient_updateConfig cfg new) \<noteq> cfg"
  proof (intro impI notI, elim conjE)
    assume "OpenAIClient_validateConfig cfg = Inr ()"
      and "snd (OpenAIClient_updateConfig cfg new) \<noteq> Inr ()"
      and "fst (OpenAIClient_updateConfig cfg new) = cfg"
    then show False by (simp add: OpenAIClient_updateConfig_def Let_def)
  qed
  have g: "GeminiClient_validateConfig cfg = Inr ()
        \<and> snd (GeminiClient_updateConfig cfg new) \<noteq> Inr () \<longrightarrow>
      fst (GeminiClient_updateConfig cfg new) \<noteq> cfg"
  proof (intro impI notI, elim conjE)
    assume "GeminiClient_validateConfig cfg = Inr ()"
      and "snd (GeminiClient_updateConfig cfg new) \<noteq> Inr ()"
      and "fst (GeminiClient_updateConfig cfg new) = cfg"
    then show False by (simp add: GeminiClient_updateConfig_def Let_def)
  qed
  show ?thesis
    using o g
    by (simp add: OpenAIClient_updateConfig_def GeminiClient_updateConfig_def Let_def
        OpenAIClient_validateConfig_def GeminiClient_validateConfig_def)
qed

theorem updateConfig_stores_before_validating_witness:
  "OpenAIClient_validateConfig (OpenAIClient_defaults ''sk-good'') = Inr ()
   \<and> OpenAIClient_updateConfig (OpenAIClient_defaults ''sk-good'')
        (noUpdate\<lparr> n_apiKey := Some ''bad-key'' \<rparr>)
      = (OpenAIClient_defaults ''bad-key'', Inl (Error ''Invalid OpenAI API key format''))
   \<and> fst (OpenAIClient_updateConfig (OpenAIClient_defaults ''sk-good'')
        (noUpdate\<lparr> n_apiKey := Some ''bad-key'' \<rparr>)) \<noteq> OpenAIClient_defaults ''sk-good''
   \<and> GeminiClient_updateConfig (GeminiClient_defaults ''AIza-good'')
        (noUpdate\<lparr> n_apiKey := Some [] \<rparr>)
      = (GeminiClient_defaults [], Inl (Error ''Gemini API key is required''))"
proof -
  let ?c = "OpenAIClient_defaults ''sk-good''"
  let ?n = "noUpdate\<lparr> n_apiKey := Some ''bad-key'' \<rparr>"
  let ?g = "GeminiClient_defaults ''AIza-good''"
  let ?e = "noUpdate\<lparr> n_apiKey := Some [] \<rparr>"
  have m1: "mergeConfig ?c ?n = OpenAIClient_defaults ''bad-key''"
    by (simp add: mergeConfig_def OpenAIClient_defaults_def noUpdate_def)
  have m2: "mergeConfig ?g ?e = GeminiClient_defaults []"
    by (simp add: mergeConfig_def GeminiClient_defaults_def noUpdate_def)
  have v: "OpenAIClient_validateConfig ?c = Inr ()"
    by (simp add: OpenAIClient_validateConfig_def OpenAIClient_defaults_def)
  have h1: "apiKey (mergeConfig ?c ?n) \<noteq> [] \<and> \<not> startsWith (apiKey (mergeConfig ?c ?n)) ''sk-''"
    unfolding m1 by (simp add: OpenAIClient_defaults_def)
  have h2: "apiKey (mergeConfig ?g ?e) = []"
    unfolding m2 by (simp add: GeminiClient_defaults_def)
  note T1 = updateConfig_stores_before_validating [of ?c ?n]
  note T2 = updateConfig_stores_before_validating [of ?g ?e]
  from T1 h1 have u1: "OpenAIClient_updateConfig ?c ?n
      = (mergeConfig ?c ?n, Inl (Error ''Invalid OpenAI API key format''))"
    by blast
  then have "snd (OpenAIClient_updateConfig ?c ?n) \<noteq> Inr ()" by simp
  with T1 v have u2: "fst (OpenAIClient_updateConfig ?c ?n) \<noteq> ?c" by blast
  from T2 h2 have u3: "GeminiClient_updateConfig ?g ?e
      = (mergeConfig ?g ?e, Inl (Error ''Gemini API key is required''))"
    by blast
  show ?thesis using v u1 [unfolded m1] u2 u3 [unfolded m2] by (intro conjI)
qed

text \<open>
  C9 fails on the code: \<open>GeminiClient.makeAPIRequest\<close> puts the key into the URL and
  writes the URL to the log before the request is sent, whatever the transport answers.
  (\<open>getConfig\<close> does leave the key out: its result depends on the key only through
  \<open>apiKeySet\<close>.)
\<close>

theorem GeminiClient_logs_apiKey:
  "hd (fst (GeminiClient_makeAPIRequest (GeminiClient_defaults ''AIzaSy-SECRET'')
        ''/models/gemini-1.5-flash:generateContent'' payload pretty fetch parseJSON))
   = ''Making API request to: https://generativelanguage.googleapis.com/v1beta/models/gemini-1.5-flash:generateContent?key=AIzaSy-SECRET''"
  by (simp add: GeminiClient_makeAPIRequest_def GeminiClient_defaults_def Let_def
      split: sum.splits)

lemma GeminiClient_first_log_has_key:
  "occursIn (apiKey cfg)
     (hd (fst (GeminiClient_makeAPIRequest cfg endpoint payload pretty fetch parseJSON)))"
proof -
  have "hd (fst (GeminiClient_makeAPIRequest cfg endpoint payload pretty fetch parseJSON))
      = (''Making API request to: '' @ baseURL cfg @ endpoint @ ''?key='') @ apiKey cfg @ []"
    by (simp add: GeminiClient_makeAPIRequest_def Let_def split: sum.splits)
  then show ?thesis unfolding occursIn_def by blast
qed

lemma getConfig_hides_key:
  "k1 \<noteq> [] \<Longrightarrow> k2 \<noteq> [] \<Longrightarrow>
     getConfig (cfg\<lparr> apiKey := k1 \<rparr>) = getConfig (cfg\<lparr> apiKey := k2 \<rparr>)"
  by (simp add: getConfig_def)

section \<open>The tools without subject text\<close>

lemma trim_Nil [simp]: "trim [] = []"
  by (simp add: trim_def)

lemma SummarizeTool_no_text:
  assumes "blankOrAbsent (summarizeQuotedText (parameters request))"
    and "trim (selection ctx) = []" and "trim (content ctx) = []"
  shows "SummarizeTool_execute gen now request ctx cfg =
     (failure ''No text available to summarize. Please select text or ensure document has content.'', [])"
proof -
  have "trim (getTextToSummarize request ctx) = []"
    using assms by (auto simp: getTextToSummarize_def blankOrAbsent_def split: option.splits)
  then show ?thesis by (simp add: SummarizeTool_execute_def Let_def)
qed

lemma RewriteTool_no_text:
  assumes "blankOrAbsent (firstMatchFrom quotedAtHead (parameters request))"
    and "trim (selection ctx) = []"
  shows "RewriteTool_execute gen now request ctx cfg =
     (failure ''No text available to rewrite. Please select text in the document.'', [])"
proof -
  have "trim (getTextToRewrite request ctx) = []"
    using assms by (auto simp: getTextToRewrite_def blankOrAbsent_def nonBlankSelection_def split: option.splits)
  then show ?thesis by (simp add: RewriteTool_execute_def Let_def)
qed

lemma ExplainTool_no_text:
  assumes "blankOrAbsent (firstMatchFrom explainQuotedAt (parameters request))"
    and "blankOrAbsent (firstMatchFrom whatAt (parameters request))"
    and "trim (selection ctx) = []"
  shows "ExplainTool_execute gen now request ctx cfg =
     (failure ''No text available to explain. Please select text in the document.'', [])"
proof -
  have "trim (getTextToExplain request ctx) = []"
    using assms by (auto simp: getTextToExplain_def blankOrAbsent_def nonBlankSelection_def split: option.splits)
  then show ?thesis by (simp add: ExplainTool_execute_def Let_def)
qed

text \<open>
  C7, as stated, fails for ExplainTool: with no quoted text, an empty selection and an
  empty document, the request "What is recursion?" is answered, because the tool takes
  the subject from the phrase \<open>what is ...\<close> of the request; the provider is called
  once.
\<close>

theorem ExplainTool_what_is_counterexample:
  "blankOrAbsent (firstMatchFrom explainQuotedAt
      (parameters (parseUserInput ''What is recursion?'')))
   \<and> trim (selection emptyContext) = [] \<and> trim (content emptyContext) = []
   \<and> success (fst (ExplainTool_execute (stubProvider ''Self reference.'') 0
        (parseUserInput ''What is recursion?'') emptyContext agentDefaults))
   \<and> length (snd (ExplainTool_execute (stubProvider ''Self reference.'') 0
        (parseUserInput ''What is recursion?'') emptyContext agentDefaults)) = 1"
  by code_simp

text \<open>
  C7, amended: when the quoted override of the request, the selection and the document
  content are all absent, empty or white space, \<open>SummarizeTool.execute\<close> and
  \<open>RewriteTool.execute\<close> return a failure whose message begins with
  "No text available" and make no call to the provider (RewriteTool does not read the
  content at all); \<open>ExplainTool.execute\<close> does the same provided that, in addition,
  the request has no phrase \<open>what is/does/are ...\<close> with a subject that is not blank.
\<close>

theorem no_subject_text_no_provider_call:
  "(blankOrAbsent (summarizeQuotedText (parameters request))
      \<and> trim (selection ctx) = [] \<and> trim (content ctx) = [] \<longrightarrow>
      SummarizeTool_execute gen now request ctx cfg =
        (failure ''No text available to summarize. Please select text or ensure document has content.'', []))
   \<and> (blankOrAbsent (firstMatchFrom quotedAtHead (parameters request))
      \<and> trim (selection ctx) = [] \<and> trim (content ctx) = [] \<longrightarrow>
      RewriteTool_execute gen now request ctx cfg =
        (failure ''No text available to rewrite. Please select text in the document.'', []))
   \<and> (blankOrAbsent (firstMatchFrom explainQuotedAt (parameters request))
      \<and> blankOrAbsent (firstMatchFrom whatAt (parameters request))
      \<and> trim (selection ctx) = [] \<and> trim (content ctx) = [] \<longrightarrow>
      ExplainTool_execute gen now request ctx cfg =
        (failure ''No text available to explain. Please select text in the document.'', []))
   \<and> startsWith ''No text available to summarize. Please select text or ensure document has content.''
        ''No text available''
   \<and> startsWith ''No text available to rewrite. Please select text in the document.''
        ''No text available''
   \<and> startsWith ''No text available to explain. Please select text in the document.''
        ''No text available''"
  using SummarizeTool_no_text [of request ctx gen now cfg]
    RewriteTool_no_text [of request ctx gen now cfg]
    ExplainTool_no_text [of request ctx gen now cfg]
  by simp

theorem no_subject_text_no_provider_call_witness:
  "blankOrAbsent (summarizeQuotedText (parameters (parseUserInput ''Improve this summary'')))
   \<and> blankOrAbsent (firstMatchFrom quotedAtHead (parameters (parseUserInput ''Improve this summary'')))
   \<and> blankOrAbsent (firstMatchFrom explainQuotedAt (parameters (parseUserInput ''Improve this summary'')))
   \<and> blankOrAbsent (firstMatchFrom whatAt (parameters (parseUserInput ''Improve this summary'')))
   \<and> trim (selection (emptyContext\<lparr> content := ''   '' \<rparr>)) = []
   \<and> trim (content (emptyContext\<lparr> content := ''   '' \<rparr>)) = []
   \<and> snd (SummarizeTool_execute (stubProvider ''A B C.'') 0
        (parseUserInput ''Improve this summary'') (emptyContext\<lparr> content := ''   '' \<rparr>)
        agentDefaults) = []
   \<and> snd (RewriteTool_execute (stubProvider ''A B C.'') 0
        (parseUserInput ''Improve this summary'') (emptyContext\<lparr> content := ''   '' \<rparr>)
        agentDefaults) = []
   \<and> snd (ExplainTool_execute (stubProvider ''A B C.'') 0
        (parseUserInput ''Improve this summary'') (emptyContext\<lparr> content := ''   '' \<rparr>)
        agentDefaults) = []
   \<and> \<not> success (fst (SummarizeTool_execute (stubProvider ''A B C.'') 0
        (parseUserInput ''Improve this summary'') (emptyContext\<lparr> content := ''   '' \<rparr>)
        agentDefaults))"
proof -
  let ?r = "parseUserInput ''Improve this summary''"
  let ?c = "emptyContext\<lparr> content := ''   '' \<rparr>"
  have h1: "blankOrAbsent (summarizeQuotedText (parameters ?r))" by code_simp
  have h2: "blankOrAbsent (firstMatchFrom quotedAtHead (parameters ?r))" by code_simp
  have h3: "blankOrAbsent (firstMatchFrom explainQuotedAt (parameters ?r))" by code_simp
  have h4: "blankOrAbsent (firstMatchFrom whatAt (parameters ?r))" by code_simp
  have h5: "trim (selection ?c) = []" by code_simp
  have h6: "trim (content ?c) = []" by code_simp
  note T = no_subject_text_no_provider_call
    [where request = ?r and ctx = ?c and gen = "stubProvider ''A B C.''" and now = 0
       and cfg = agentDefaults]
  from T h1 h5 h6 have s: "SummarizeTool_execute (stubProvider ''A B C.'') 0 ?r ?c agentDefaults =
        (failure ''No text available to summarize. Please select text or ensure document has content.'', [])"
    by blast
  from T h2 h5 h6 have r: "RewriteTool_execute (stubProvider ''A B C.'') 0 ?r ?c agentDefaults =
        (failure ''No text available to rewrite. Please select text in the document.'', [])"
    by blast
  from T h3 h4 h5 h6 have e: "ExplainTool_execute (stubProvider ''A B C.'') 0 ?r ?c agentDefaults =
        (failure ''No text available to explain. Please select text in the document.'', [])"
    by blast
  have f: "\<not> success (fst (SummarizeTool_execute (stubProvider ''A B C.'') 0 ?r ?c agentDefaults))"
    unfolding s by (simp add: failure_def)
  have s': "snd (SummarizeTool_execute (stubProvider ''A B C.'') 0 ?r ?c agentDefaults) = []"
    unfolding s by simp
  have r': "snd (RewriteTool_execute (stubProvider ''A B C.'') 0 ?r ?c agentDefaults) = []"
    unfolding r by simp
  have e': "snd (ExplainTool_execute (stubProvider ''A B C.'') 0 ?r ?c agentDefaults) = []"
    unfolding e by simp
  show ?thesis using h1 h2 h3 h4 h5 h6 s' r' e' f by (intro conjI)
qed

section \<open>The summarize scenario\<close>

text \<open>
  C8, as stated, fails in its last part: in the scenario \<open>metadata.compressionRatio\<close> is
  the ratio of the character counts, 6 / 19, printed \<open>0.32\<close>, and not the word ratio
  3 / 10.
\<close>

theorem summarize_metadata_ratio_counterexample:
  "map_option compressionRatio (metadata (fst (SummarizeTool_execute (stubProvider ''A B C.'') 0
       (parseUserInput ''Summarize this text'')
       (emptyContext\<lparr> selection := ''A B C D E F G H I J'' \<rparr>) agentDefaults)))
     = Some ''0.32''
   \<and> toFixed2 3 10 = ''0.30''"
  by code_simp

text \<open>
  C8, amended: in the scenario the tool calls the provider once and returns a success
  with \<open>result.summary = "A B C."\<close>; the word ratio 3 / 10 is
  \<open>result.statistics.compressionRatio\<close>, the string \<open>0.30\<close>, and
  \<open>metadata.compressionRatio\<close> is the ratio of the character counts 6 / 19, the string
  \<open>0.32\<close>.
\<close>

theorem summarize_scenario:
  "(let r = SummarizeTool_execute (stubProvider ''A B C.'') now
              (parseUserInput ''Summarize this text'')
              (emptyContext\<lparr> selection := ''A B C D E F G H I J'' \<rparr>) agentDefaults
    in success (fst r)
     \<and> length (snd r) = 1
     \<and> map_option summary (result (fst r)) = Some ''A B C.''
     \<and> map_option (originalWords \<circ> statistics) (result (fst r)) = Some 10
     \<and> map_option (summaryWords \<circ> statistics) (result (fst r)) = Some 3
     \<and> map_option (stat_compressionRatio \<circ> statistics) (result (fst r)) = Some (toFixed2 3 10)
     \<and> toFixed2 3 10 = ''0.30''
     \<and> map_option compressionRatio (metadata (fst r)) = Some (toFixed2 6 19)
     \<and> toFixed2 6 19 = ''0.32'')"
  by code_simp

section \<open>Dispatch and the error channel\<close>















text \<open>
  What the amended claim leaves out: a tool that throws \<open>null\<close> makes the handler
  itself throw, and the exception reaches the caller.
\<close>

lemma processRequest_nullish_escapes:
  "processRequest
     ((sampleController 0 (Some (stubProvider ''ok'')))
        \<lparr> tools := [''general'' \<mapsto> \<lparr> tool_name = ''general'',
               execute = (\<lambda>request context client cfg. Inl Nullish) \<rparr>] \<rparr>)
     0 ''hello there'' emptyContext
   = Inl (ErrorObject messageOfNullish)"
  by code_simp

end
